theory Spec2Isabelle
  imports Main "HOL-Library.Word"
begin

unbundle bit_operations_syntax

section \<open>Common data\<close>

type_synonym u8 = "8 word"
type_synonym u16 = "16 word"
type_synonym u32 = "32 word"

text \<open>
  The transfer flags of a multi-part response. The enumerators come from the PLDM base
  header of the protocol library; their values are the ones DSP0240 assigns.
\<close>

definition PLDM_START :: u8 where "PLDM_START = 0x01"
definition PLDM_MIDDLE :: u8 where "PLDM_MIDDLE = 0x02"
definition PLDM_END :: u8 where "PLDM_END = 0x04"
definition PLDM_START_AND_END :: u8 where "PLDM_START_AND_END = 0x05"

section \<open>Firmware update: the transfer flag of an outgoing chunk\<close>

text \<open>
  \<^verbatim>\<open>FWUpdate::setTransferFlag(offset, length, dataSize)\<close>. The arguments are
  \<^verbatim>\<open>size_t\<close>, a machine word whose width the platform fixes, so the sum
  \<^verbatim>\<open>offset + length\<close> is the wrapping sum of that width. The local
  \<^verbatim>\<open>transferFlag\<close> is declared without a value and assigned in the two
  branches of an \<^verbatim>\<open>if / else if\<close> with no final \<^verbatim>\<open>else\<close>; the
  model returns \<open>None\<close> where no branch would assign it.
\<close>

definition setTransferFlag :: "'a::len word \<Rightarrow> 'a word \<Rightarrow> 'a word \<Rightarrow> u8 option" where
  "setTransferFlag offset length' dataSize =
     (if offset + length' < dataSize then
        (if offset = 0 then Some PLDM_START else Some PLDM_MIDDLE)
      else if offset + length' \<ge> dataSize then
        (if offset = 0 then Some PLDM_START_AND_END else Some PLDM_END)
      else None)"

section \<open>Firmware update: filtering a request of the firmware device\<close>

text \<open>
  Modelled from the spec: the PLDM message header is
  \<^verbatim>\<open>{Rq, D, RSVD, InstanceID[5]}, {Hdr, Type[6]}, {Command}\<close>, three bytes; the
  declaration of \<^verbatim>\<open>hdrSize\<close> is not among the sources.
\<close>

definition hdrSize :: nat where "hdrSize = 3"

text \<open>The firmware update command codes (DSP0267) the filter names.\<close>

definition PLDM_REQUEST_FIRMWARE_DATA :: u8 where "PLDM_REQUEST_FIRMWARE_DATA = 0x15"
definition PLDM_TRANSFER_COMPLETE :: u8 where "PLDM_TRANSFER_COMPLETE = 0x16"

text \<open>
  The members of \<^verbatim>\<open>FWUpdate\<close> that \<^verbatim>\<open>validateReqForFWUpdCmd\<close> reads or
  writes. \<open>timerCancels\<close> counts the calls of \<^verbatim>\<open>expectedCommandTimer->cancel()\<close>.
\<close>

record FWUpdate =
  currentTid :: u8
  expectedCmd :: u8
  fdTransferCompleted :: bool
  msgTag :: u8
  fdReqMatched :: bool
  fdReq :: "u8 list"
  timerCancels :: nat

text \<open>\<^verbatim>\<open>msgHdr->command\<close>: the third byte of the header.\<close>

definition hdr_command :: "u8 list \<Rightarrow> u8" where
  "hdr_command req = req ! 2"

definition validateReqForFWUpdCmd :: "u8 \<Rightarrow> u8 \<Rightarrow> u8 list \<Rightarrow> FWUpdate \<Rightarrow> FWUpdate" where
  "validateReqForFWUpdCmd tid messageTag req fw =
     (if length req < hdrSize then fw
      else
        let fw1 = (if expectedCmd fw = PLDM_REQUEST_FIRMWARE_DATA
                      \<and> hdr_command req = PLDM_TRANSFER_COMPLETE
                   then fw\<lparr>expectedCmd := PLDM_TRANSFER_COMPLETE, fdTransferCompleted := True\<rparr>
                   else fw)
        in if tid \<noteq> currentTid fw1 \<or> hdr_command req \<noteq> expectedCmd fw1 then fw1
           else fw1\<lparr>msgTag := messageTag, fdReqMatched := True, fdReq := req,
                    timerCancels := Suc (timerCancels fw1)\<rparr>)"

text \<open>A session waiting for RequestFirmwareData from TID 1.\<close>

definition fw_session :: FWUpdate where
  "fw_session = \<lparr>currentTid = 1, expectedCmd = PLDM_REQUEST_FIRMWARE_DATA,
                  fdTransferCompleted = False, msgTag = 0, fdReqMatched = False,
                  fdReq = [], timerCancels = 0\<rparr>"

section \<open>Transport mediation\<close>

text \<open>
  Modelled from the spec: the first header byte is \<^verbatim>\<open>{Rq, D, RSVD, InstanceID[5]}\<close>
  and the second \<^verbatim>\<open>{Hdr, Type[6]}\<close>, which fixes the masks and the shift the
  accessors use; their declarations are not among the sources.
\<close>

definition PLDM_INSTANCE_ID_MASK :: u8 where "PLDM_INSTANCE_ID_MASK = 0x1F"
definition PLDM_MSG_TYPE_MASK :: u8 where "PLDM_MSG_TYPE_MASK = 0x3F"
definition PLDM_RQ_D_MASK :: u8 where "PLDM_RQ_D_MASK = 0xC0"
definition PLDM_RQ_D_SHIFT :: nat where "PLDM_RQ_D_SHIFT = 6"

text \<open>
  Enumerators of the libraries the daemon links: the packet type \<^verbatim>\<open>PLDM_RESPONSE\<close>
  is the first enumerator of \<^verbatim>\<open>MessageType\<close>, and the MCTP message type of PLDM
  (\<^verbatim>\<open>mctpw::MessageType::pldm\<close>) is 1 (DSP0239).
\<close>

definition PLDM_RESPONSE :: u8 where "PLDM_RESPONSE = 0"
definition mctp_pldm :: u8 where "mctp_pldm = 0x01"

text \<open>
  The file-level state of the mediator: the reservation (\<^verbatim>\<open>rsvBWActive\<close>,
  \<^verbatim>\<open>reservedTID\<close>, \<^verbatim>\<open>reservedPLDMType\<close>) and the TID mapper.
\<close>

record mediator =
  rsvBWActive :: bool
  reservedTID :: u8
  reservedPLDMType :: u8
  tidMap :: "u8 \<rightharpoonup> u8"

text \<open>
  The transport is outside the daemon. \<open>sent\<close> logs every buffer handed to it with
  the destination endpoint, in order; \<open>replies\<close> scripts what the successive calls of
  \<^verbatim>\<open>sendReceiveYield\<close> return (error flag, response bytes) and \<open>sendResults\<close>
  what the successive calls of \<^verbatim>\<open>sendYield\<close> return (error flag, return code).
  A call beyond the script fails. The timeout is handed to the transport unchanged and
  shows only in these outcomes.
\<close>

record transport =
  sent :: "(u8 \<times> u8 list) list"
  replies :: "(bool \<times> u8 list) list"
  sendResults :: "(bool \<times> int) list"

definition getMappedEID :: "mediator \<Rightarrow> u8 \<Rightarrow> u8 option" where
  "getMappedEID st tid = tidMap st tid"

definition validateReserveBW :: "mediator \<Rightarrow> u8 \<Rightarrow> u8 \<Rightarrow> bool" where
  "validateReserveBW st tid pldmType =
     (rsvBWActive st \<and> \<not> (tid = reservedTID st \<and> pldmType = reservedPLDMType st))"

text \<open>
  \<^verbatim>\<open>reserveBandwidth\<close> and \<^verbatim>\<open>releaseBandwidth\<close>. \<open>rc\<close> is what the transport's
  own reserve or release call returns when the function gets as far as calling it.
  \<open>pldmInvalidTid\<close> and \<open>pldmInvalidType\<close> are constants of a header that is not
  among the sources, so they are parameters.
\<close>

definition reserveBandwidth :: "mediator \<Rightarrow> u8 \<Rightarrow> u8 \<Rightarrow> int \<Rightarrow> bool \<times> mediator" where
  "reserveBandwidth st tid pldmType rc =
     (if validateReserveBW st tid pldmType then (False, st)
      else case getMappedEID st tid of
             None \<Rightarrow> (False, st)
           | Some eid \<Rightarrow>
               if rc < 0 then (False, st)
               else (True, st\<lparr>rsvBWActive := True, reservedTID := tid,
                               reservedPLDMType := pldmType\<rparr>))"

definition releaseBandwidth ::
    "u8 \<Rightarrow> u8 \<Rightarrow> mediator \<Rightarrow> u8 \<Rightarrow> u8 \<Rightarrow> int \<Rightarrow> bool \<times> mediator" where
  "releaseBandwidth pldmInvalidTid pldmInvalidType st tid pldmType rc =
     (if \<not> rsvBWActive st then (False, st)
      else if tid \<noteq> reservedTID st \<or> pldmType \<noteq> reservedPLDMType st then (False, st)
      else case getMappedEID st tid of
             None \<Rightarrow> (False, st)
           | Some eid \<Rightarrow>
               if rc < 0 then (False, st)
               else (True, st\<lparr>rsvBWActive := False, reservedTID := pldmInvalidTid,
                               reservedPLDMType := pldmInvalidType\<rparr>))"

definition getInstanceId :: "u8 list \<Rightarrow> u8 option" where
  "getInstanceId message =
     (if message = [] then None else Some (message ! 0 AND PLDM_INSTANCE_ID_MASK))"

definition getPldmMessageType :: "u8 list \<Rightarrow> u8 option" where
  "getPldmMessageType message =
     (if length message < 2 then None else Some (message ! 1 AND PLDM_MSG_TYPE_MASK))"

definition getPldmPacketType :: "u8 list \<Rightarrow> u8 option" where
  "getPldmPacketType message =
     (if length message < 1 then None
      else Some (drop_bit PLDM_RQ_D_SHIFT (message ! 0 AND PLDM_RQ_D_MASK)))"

text \<open>\<^verbatim>\<open>hdr->type\<close> of a buffer read in place as a \<^verbatim>\<open>pldm_msg_hdr\<close>.\<close>

definition hdr_type :: "u8 list \<Rightarrow> u8" where
  "hdr_type msg = msg ! 1 AND PLDM_MSG_TYPE_MASK"

definition doSendReceievePldmMessage ::
    "u8 \<Rightarrow> u8 list \<Rightarrow> transport \<Rightarrow> bool \<times> u8 list \<times> transport" where
  "doSendReceievePldmMessage dstEid pldmReq tr =
     (case replies tr of
        [] \<Rightarrow> (False, [], tr\<lparr>sent := sent tr @ [(dstEid, pldmReq)]\<rparr>)
      | (err, bytes) # rest \<Rightarrow>
          (\<not> err, bytes, tr\<lparr>sent := sent tr @ [(dstEid, pldmReq)], replies := rest\<rparr>))"

text \<open>
  One pass through the body of the retry loop of \<^verbatim>\<open>sendReceivePldmMessage\<close>. It
  either returns from the function, or goes on to the next iteration with the request
  and response buffers as the pass left them, or erases the first element of an empty
  request buffer, which has no defined behaviour.
\<close>

datatype attempt =
    Return bool "u8 list" transport
  | Continue "u8 list" "u8 list" transport
  | Undefined

definition minPldmMsgSize :: nat where "minPldmMsgSize = 4"

definition sendReceiveAttempt ::
    "mediator \<Rightarrow> u8 \<Rightarrow> u8 option \<Rightarrow> nat \<Rightarrow> u8 list \<Rightarrow> u8 list \<Rightarrow> transport \<Rightarrow> attempt" where
  "sendReceiveAttempt st tid eid retry pldmReq pldmResp tr =
     (case (case eid of Some e \<Rightarrow> Some e | None \<Rightarrow> getMappedEID st tid) of
        None \<Rightarrow> Return False pldmResp tr
      | Some dstEid \<Rightarrow>
          (let req1 = (if retry = 0 then mctp_pldm # pldmReq else pldmReq)
           in case doSendReceievePldmMessage dstEid req1 tr of
                (ok, resp, tr1) \<Rightarrow>
                  if \<not> ok then Continue req1 resp tr1
                  else if length resp < minPldmMsgSize then Continue req1 resp tr1
                  else (case getPldmPacketType resp of
                          None \<Rightarrow> Continue req1 resp tr1
                        | Some t \<Rightarrow>
                            if t \<noteq> PLDM_RESPONSE then Continue req1 resp tr1
                            else if resp ! 0 = mctp_pldm then
                              (case req1 of
                                 [] \<Rightarrow> Undefined
                               | _ # req2 \<Rightarrow>
                                   (let resp2 = tl resp
                                    in case getInstanceId req2 of
                                         None \<Rightarrow> Continue req2 resp2 tr1
                                       | Some reqInstanceId \<Rightarrow>
                                           (case getInstanceId resp2 of
                                              None \<Rightarrow> Continue req2 resp2 tr1
                                            | Some respInstanceId \<Rightarrow>
                                                if reqInstanceId = respInstanceId
                                                then Return True resp2 tr1
                                                else Continue req2 resp2 tr1)))
                            else Continue req1 resp tr1)))"

text \<open>
  The loop \<^verbatim>\<open>for (retry = 0; retry < retryCount; retry++)\<close>; the third argument is
  the number of iterations left.
\<close>

fun sendReceiveLoop ::
    "mediator \<Rightarrow> u8 \<Rightarrow> u8 option \<Rightarrow> nat \<Rightarrow> nat \<Rightarrow> u8 list \<Rightarrow> u8 list \<Rightarrow> transport
     \<Rightarrow> (bool \<times> u8 list \<times> transport) option" where
  "sendReceiveLoop st tid eid retry 0 pldmReq pldmResp tr = Some (False, pldmResp, tr)"
| "sendReceiveLoop st tid eid retry (Suc n) pldmReq pldmResp tr =
     (case sendReceiveAttempt st tid eid retry pldmReq pldmResp tr of
        Return ok resp tr1 \<Rightarrow> Some (ok, resp, tr1)
      | Continue req1 resp tr1 \<Rightarrow> sendReceiveLoop st tid eid (Suc retry) n req1 resp tr1
      | Undefined \<Rightarrow> None)"

definition maxRetryCount :: nat where "maxRetryCount = 5"

text \<open>
  \<^verbatim>\<open>sendReceivePldmMessage\<close>. The result is \<open>None\<close> where the code leaves defined
  behaviour (a request too short to hold the header type it reads, or the erasure
  above); otherwise the returned flag, the response buffer of the caller and the
  transport.
\<close>

definition sendReceivePldmMessage ::
    "mediator \<Rightarrow> u8 \<Rightarrow> nat \<Rightarrow> u8 list \<Rightarrow> u8 list \<Rightarrow> u8 option \<Rightarrow> transport
     \<Rightarrow> (bool \<times> u8 list \<times> transport) option" where
  "sendReceivePldmMessage st tid retryCount pldmReq pldmResp eid tr =
     (if length pldmReq < 2 then None
      else if validateReserveBW st tid (hdr_type pldmReq) then Some (False, pldmResp, tr)
      else sendReceiveLoop st tid eid 0
             (if retryCount > maxRetryCount then maxRetryCount else retryCount)
             pldmReq pldmResp tr)"

definition sendYield :: "u8 \<Rightarrow> u8 \<Rightarrow> bool \<Rightarrow> u8 list \<Rightarrow> transport \<Rightarrow> (bool \<times> int) \<times> transport" where
  "sendYield dstEid mTag tagOwner payload tr =
     (case sendResults tr of
        [] \<Rightarrow> ((True, -1), tr\<lparr>sent := sent tr @ [(dstEid, payload)]\<rparr>)
      | rc # rest \<Rightarrow> (rc, tr\<lparr>sent := sent tr @ [(dstEid, payload)], sendResults := rest\<rparr>))"

text \<open>
  The loop of \<^verbatim>\<open>sendPldmMessage\<close>; the first argument is the number of iterations
  left and \<open>rc\<close> the result of the last send.
\<close>

fun sendLoop ::
    "nat \<Rightarrow> u8 \<Rightarrow> u8 \<Rightarrow> bool \<Rightarrow> u8 list \<Rightarrow> bool \<times> int \<Rightarrow> transport \<Rightarrow> (bool \<times> int) \<times> transport" where
  "sendLoop 0 dstEid mTag tagOwner payload rc tr = (rc, tr)"
| "sendLoop (Suc n) dstEid mTag tagOwner payload rc tr =
     (case sendYield dstEid mTag tagOwner payload tr of
        (rc1, tr1) \<Rightarrow>
          if fst rc1 \<or> snd rc1 < 0 then sendLoop n dstEid mTag tagOwner payload rc1 tr1
          else (rc1, tr1))"

text \<open>
  \<^verbatim>\<open>sendPldmMessage\<close>. The pair \<^verbatim>\<open>rc\<close> is value-initialised: no error, 0.
\<close>

definition sendPldmMessage ::
    "mediator \<Rightarrow> u8 \<Rightarrow> nat \<Rightarrow> u8 \<Rightarrow> bool \<Rightarrow> u8 list \<Rightarrow> transport \<Rightarrow> (bool \<times> transport) option" where
  "sendPldmMessage st tid retryCount mTag tagOwner payload tr =
     (if length payload < 2 then None
      else if validateReserveBW st tid (hdr_type payload) then Some (False, tr)
      else case getMappedEID st tid of
             None \<Rightarrow> Some (False, tr)
           | Some dstEid \<Rightarrow>
               (case sendLoop (if retryCount > maxRetryCount then maxRetryCount else retryCount)
                              dstEid mTag tagOwner (mctp_pldm # payload) (False, 0) tr of
                  (rc, tr1) \<Rightarrow>
                    if fst rc \<or> snd rc < 0 then Some (False, tr1) else Some (True, tr1)))"

text \<open>A mediator in which TID 1 holds the reservation for PLDM type 5 (firmware update).\<close>

definition reserved_by_1 :: mediator where
  "reserved_by_1 = \<lparr>rsvBWActive = True, reservedTID = 1, reservedPLDMType = 5,
                     tidMap = [1 \<mapsto> 8, 2 \<mapsto> 9]\<rparr>"

text \<open>A mediator without a reservation, TID 1 mapped to endpoint 8.\<close>

definition idle_mediator :: mediator where
  "idle_mediator = \<lparr>rsvBWActive = False, reservedTID = 0xFF, reservedPLDMType = 0xFF,
                     tidMap = [1 \<mapsto> 8]\<rparr>"

section \<open>State sensor handler\<close>

definition errorThreshold :: nat where "errorThreshold = 3"

text \<open>
  Values of the protocol library: the reading that stands for no valid state, and the
  \<^verbatim>\<open>sensorInit\<close> code of a sensor the PDR disables (DSP0248).
\<close>

definition PLDM_INVALID_VALUE :: u8 where "PLDM_INVALID_VALUE = 0xFF"
definition PLDM_SENSOR_DISABLE :: u8 where "PLDM_SENSOR_DISABLE = 3"

text \<open>
  Modelled from the spec: a disabled sensor is published available and non-functional,
  an unavailable one unavailable and non-functional, an enabled one available and
  functional; the header that declares these four flags is not among the sources.
\<close>

definition sensorAvailable :: bool where "sensorAvailable = True"
definition sensorUnavailable :: bool where "sensorUnavailable = False"
definition sensorFunctional :: bool where "sensorFunctional = True"
definition sensorNonFunctional :: bool where "sensorNonFunctional = False"

text \<open>
  The operational states \<^verbatim>\<open>handleSensorReading\<close> tells apart; \<open>OtherOpState\<close>
  stands for every value its \<^verbatim>\<open>default\<close> branch takes.
\<close>

datatype sensor_op_state =
  PLDM_SENSOR_ENABLED | PLDM_SENSOR_DISABLED | PLDM_SENSOR_UNAVAILABLE | OtherOpState

record get_sensor_state_field =
  sensor_op_state :: sensor_op_state
  present_state :: u8
  previous_state :: u8

text \<open>
  What one poll obtains: \<open>NoReading\<close> when \<^verbatim>\<open>getStateSensorReadings\<close> fails before
  it has a decoded reading (request encoding, send and receive, response decoding or
  completion code), else the first state field of the response.
\<close>

datatype poll_result = NoReading | Reading get_sensor_state_field

text \<open>
  \<^verbatim>\<open>stateSetMap\<close> is a table of a header that is not among the sources, so it is a
  parameter: state set id to the name of the set and, per state value, its names.
\<close>

record StateSetValueInfo =
  stateSetValueName :: string
  redfishMessageID :: string

type_synonym state_set_map = "u16 \<rightharpoonup> string \<times> (u8 \<rightharpoonup> StateSetValueInfo)"

text \<open>
  What the handler does to the outside, in order: the state change event it logs
  (message, message id, then the four arguments: state set name, sensor name, name of
  the previous state, name of the current state), the properties it sets on its
  interfaces, and the first registration of the properties.
\<close>

datatype action =
    StateChangeEvent string string string string string string
  | SetCurrentState u8
  | SetPreviousState u8
  | SetAvailable bool
  | SetFunctional bool
  | InterfacesInitialized

text \<open>
  The handler: the PDR data it uses (\<open>name\<close>, \<open>stateSetID\<close>, \<open>sensor_init\<close>), whether
  each interface pointer is set, its members, the property values on the bus
  (\<open>None\<close> before they are registered) and the trace of its actions.
\<close>

record StateSensorHandler =
  name :: string
  stateSetID :: u16
  sensor_init :: u8
  sensorInterface :: bool
  availableInterface :: bool
  operationalInterface :: bool
  interfaceInitialized :: bool
  currentStateReading :: u8
  previousStateReading :: u8
  isAvailableReading :: bool
  isFuntionalReading :: bool
  errCount :: nat
  propCurrentState :: "u8 option"
  propPreviousState :: "u8 option"
  propAvailable :: "bool option"
  propFunctional :: "bool option"
  trace :: "action list"

text \<open>
  \<^verbatim>\<open>initializeInterface\<close> uses the three interfaces without a check; with the
  available or the operational one missing the call has no defined result (\<open>None\<close>).
  Its caller has checked the sensor interface.
\<close>

definition initializeInterface :: "StateSensorHandler \<Rightarrow> StateSensorHandler option" where
  "initializeInterface h =
     (if \<not> interfaceInitialized h then
        (if availableInterface h \<and> operationalInterface h then
           Some (h\<lparr>propPreviousState := Some (previousStateReading h),
                   propCurrentState := Some (currentStateReading h),
                   propAvailable := Some (isAvailableReading h),
                   propFunctional := Some (isFuntionalReading h),
                   interfaceInitialized := True,
                   trace := trace h @ [InterfacesInitialized]\<rparr>)
         else None)
      else Some h)"

definition markFunctional :: "bool \<Rightarrow> StateSensorHandler \<Rightarrow> StateSensorHandler" where
  "markFunctional isFunctional h =
     (if \<not> operationalInterface h then h
      else
        let h1 = (if \<not> interfaceInitialized h then h\<lparr>isFuntionalReading := isFunctional\<rparr>
                  else h\<lparr>propFunctional := Some isFunctional,
                         trace := trace h @ [SetFunctional isFunctional]\<rparr>)
        in if isFunctional then h1\<lparr>errCount := 0\<rparr> else h1)"

definition markAvailable :: "bool \<Rightarrow> StateSensorHandler \<Rightarrow> StateSensorHandler" where
  "markAvailable isAvailable h =
     (if \<not> availableInterface h then h
      else if \<not> interfaceInitialized h then h\<lparr>isAvailableReading := isAvailable\<rparr>
      else h\<lparr>propAvailable := Some isAvailable,
             trace := trace h @ [SetAvailable isAvailable]\<rparr>)"

definition logStateChangeEvent ::
    "state_set_map \<Rightarrow> u8 \<Rightarrow> u8 \<Rightarrow> StateSensorHandler \<Rightarrow> StateSensorHandler" where
  "logStateChangeEvent stateSetMap currentState previousState h =
     (case stateSetMap (stateSetID h) of
        None \<Rightarrow> h
      | Some (stateSetName, values) \<Rightarrow>
          (case values currentState of
             None \<Rightarrow> h
           | Some currentInfo \<Rightarrow>
               (case values previousState of
                  None \<Rightarrow> h
                | Some previousInfo \<Rightarrow>
                    h\<lparr>trace := trace h @
                        [StateChangeEvent
                           (stateSetName @ '' of '' @ name h @ '' state sensor changed from ''
                              @ stateSetValueName previousInfo @ '' to ''
                              @ stateSetValueName currentInfo)
                           (''OpenBMC.0.1.'' @ redfishMessageID currentInfo)
                           stateSetName (name h)
                           (stateSetValueName previousInfo)
                           (stateSetValueName currentInfo)]\<rparr>)))"

definition updateState ::
    "state_set_map \<Rightarrow> u8 \<Rightarrow> u8 \<Rightarrow> bool \<Rightarrow> bool \<Rightarrow> StateSensorHandler
     \<Rightarrow> StateSensorHandler option" where
  "updateState stateSetMap currentState previousState isAvailable isFunctional h =
     (if \<not> sensorInterface h then Some h
      else
        let h1 =
          (if \<not> interfaceInitialized h then
             h\<lparr>currentStateReading := currentState, previousStateReading := previousState\<rparr>
           else
             let h2 = (if (currentStateReading h \<noteq> currentState
                             \<and> currentState \<noteq> PLDM_INVALID_VALUE)
                          \<or> (previousStateReading h \<noteq> previousState
                             \<and> previousState \<noteq> PLDM_INVALID_VALUE)
                       then logStateChangeEvent stateSetMap currentState previousState h
                       else h)
             in h2\<lparr>propCurrentState := Some currentState,
                    propPreviousState := Some previousState,
                    currentStateReading := currentState,
                    previousStateReading := previousState,
                    trace := trace h2 @ [SetCurrentState currentState,
                                         SetPreviousState previousState]\<rparr>)
        in initializeInterface (markFunctional isFunctional (markAvailable isAvailable h1)))"

definition incrementError :: "state_set_map \<Rightarrow> StateSensorHandler \<Rightarrow> StateSensorHandler option" where
  "incrementError stateSetMap h =
     (if errCount h \<ge> errorThreshold then Some h
      else
        let h1 = h\<lparr>errCount := errCount h + 1\<rparr>
        in if errCount h1 = errorThreshold
           then updateState stateSetMap PLDM_INVALID_VALUE PLDM_INVALID_VALUE
                  sensorAvailable sensorNonFunctional h1
           else Some h1)"

definition handleSensorReading ::
    "state_set_map \<Rightarrow> get_sensor_state_field \<Rightarrow> StateSensorHandler
     \<Rightarrow> (bool \<times> StateSensorHandler) option" where
  "handleSensorReading stateSetMap stateReading h =
     (case sensor_op_state stateReading of
        PLDM_SENSOR_DISABLED \<Rightarrow>
          map_option (Pair True)
            (updateState stateSetMap PLDM_INVALID_VALUE PLDM_INVALID_VALUE
               sensorAvailable sensorNonFunctional h)
      | PLDM_SENSOR_UNAVAILABLE \<Rightarrow>
          map_option (Pair False)
            (updateState stateSetMap PLDM_INVALID_VALUE PLDM_INVALID_VALUE
               sensorUnavailable sensorNonFunctional h)
      | PLDM_SENSOR_ENABLED \<Rightarrow>
          map_option (Pair True)
            (updateState stateSetMap (present_state stateReading) (previous_state stateReading)
               sensorAvailable sensorFunctional h)
      | OtherOpState \<Rightarrow> Some (False, h))"

definition getStateSensorReadings ::
    "state_set_map \<Rightarrow> poll_result \<Rightarrow> StateSensorHandler \<Rightarrow> (bool \<times> StateSensorHandler) option" where
  "getStateSensorReadings stateSetMap r h =
     (case r of
        NoReading \<Rightarrow> Some (False, h)
      | Reading stateField \<Rightarrow> handleSensorReading stateSetMap stateField h)"

definition populateSensorValue ::
    "state_set_map \<Rightarrow> poll_result \<Rightarrow> StateSensorHandler \<Rightarrow> (bool \<times> StateSensorHandler) option" where
  "populateSensorValue stateSetMap r h =
     (if sensor_init h = PLDM_SENSOR_DISABLE then Some (False, h)
      else case getStateSensorReadings stateSetMap r h of
             None \<Rightarrow> None
           | Some (ok, h1) \<Rightarrow>
               if \<not> ok then map_option (Pair False) (incrementError stateSetMap h1)
               else Some (True, h1))"

text \<open>Successive polls; the handler after the last one.\<close>

fun polls :: "state_set_map \<Rightarrow> poll_result list \<Rightarrow> StateSensorHandler \<Rightarrow> StateSensorHandler option" where
  "polls stateSetMap [] h = Some h"
| "polls stateSetMap (r # rs) h =
     (case populateSensorValue stateSetMap r h of
        None \<Rightarrow> None
      | Some (ok, h1) \<Rightarrow> polls stateSetMap rs h1)"

text \<open>A failed poll that publishes nothing on its own: no reading, or an unrecognised state.\<close>

definition silent_failure :: "poll_result \<Rightarrow> bool" where
  "silent_failure r =
     (case r of NoReading \<Rightarrow> True | Reading f \<Rightarrow> sensor_op_state f = OtherOpState)"

text \<open>
  A sample table with the health state set, and a sensor of that set that has published
  the state 1 after the state 1 and counts no error.
\<close>

definition health_states :: state_set_map where
  "health_states =
     [1 \<mapsto> (''Health State'',
             [1 \<mapsto> \<lparr>stateSetValueName = ''Normal'', redfishMessageID = ''StateSensorNormal''\<rparr>,
              2 \<mapsto> \<lparr>stateSetValueName = ''Non-Critical'',
                      redfishMessageID = ''StateSensorNonCritical''\<rparr>,
              3 \<mapsto> \<lparr>stateSetValueName = ''Critical'',
                      redfishMessageID = ''StateSensorCritical''\<rparr>])]"

definition published_sensor :: StateSensorHandler where
  "published_sensor =
     \<lparr>name = ''cpu'', stateSetID = 1, sensor_init = 0,
      sensorInterface = True, availableInterface = True, operationalInterface = True,
      interfaceInitialized = True, currentStateReading = 1, previousStateReading = 1,
      isAvailableReading = True, isFuntionalReading = True, errCount = 0,
      propCurrentState = Some 1, propPreviousState = Some 1,
      propAvailable = Some True, propFunctional = Some True, trace = []\<rparr>"

section \<open>Entities and entity auxiliary names\<close>

record pldm_entity =
  entity_type :: u16
  entity_instance_num :: u16
  entity_container_id :: u16

text \<open>A 16-bit little-endian field of a record, at a byte offset.\<close>

definition le16 :: "u8 list \<Rightarrow> nat \<Rightarrow> u16" where
  "le16 bs i = ucast (bs ! i) OR push_bit 8 (ucast (bs ! (i + 1)))"

text \<open>
  The layout of \<^verbatim>\<open>pldm_pdr_entity_auxiliary_names\<close>: the common PDR header (10
  bytes), the entity (three 16-bit fields), the shared name count, the name string
  count, then the names.
\<close>

definition pdrHdrSize :: nat where "pdrHdrSize = 10"
definition minEntityAuxNamesPDRLen :: nat where "minEntityAuxNamesPDRLen = pdrHdrSize + 6 + 1 + 1"

definition namePDR_entity :: "u8 list \<Rightarrow> pldm_entity" where
  "namePDR_entity pdrData =
     \<lparr>entity_type = le16 pdrData pdrHdrSize,
      entity_instance_num = le16 pdrData (pdrHdrSize + 2),
      entity_container_id = le16 pdrData (pdrHdrSize + 4)\<rparr>"

definition namePDR_shared_name_count :: "u8 list \<Rightarrow> u8" where
  "namePDR_shared_name_count pdrData = pdrData ! (pdrHdrSize + 6)"

definition namePDR_name_string_count :: "u8 list \<Rightarrow> u8" where
  "namePDR_name_string_count pdrData = pdrData ! (pdrHdrSize + 7)"

text \<open>\<^verbatim>\<open>std::to_string\<close> of an unsigned number.\<close>

definition digit_char :: "nat \<Rightarrow> char" where
  "digit_char d = ''0123456789'' ! d"

function to_string :: "nat \<Rightarrow> string" where
  "to_string n = (if n < 10 then [digit_char n] else to_string (n div 10) @ [digit_char (n mod 10)])"
  by pat_completeness auto
termination
  by (relation "measure id") auto

declare to_string.simps [simp del]

text \<open>
  \<^verbatim>\<open>emplace\<close> on a map with unique keys: a key already present keeps its value.
  \<^verbatim>\<open>_entityAuxNames\<close> is used as such a map from entity to name (\<^verbatim>\<open>emplace\<close>,
  \<^verbatim>\<open>find\<close>), as \<^verbatim>\<open>devicePDRs\<close> is from record handle to record.
\<close>

definition emplace :: "('k \<rightharpoonup> 'v) \<Rightarrow> 'k \<Rightarrow> 'v \<Rightarrow> ('k \<rightharpoonup> 'v)" where
  "emplace m k v = (case m k of None \<Rightarrow> m(k \<mapsto> v) | Some old \<Rightarrow> m)"

text \<open>
  The loop of \<^verbatim>\<open>parseEntityAuxNamesPDR\<close> over the instance range.
  \<^verbatim>\<open>instanceNumber\<close> and \<^verbatim>\<open>count\<close> are 16-bit and wrap; the bound
  \<^verbatim>\<open>entity_instance_num + shared_name_count\<close> is computed in \<^verbatim>\<open>int\<close> and does
  not. The loop need not end, so it is a partial function: \<open>None\<close> is not returning.
\<close>

partial_function (option) auxNameLoop ::
    "pldm_entity \<Rightarrow> u8 \<Rightarrow> string \<Rightarrow> u16 \<Rightarrow> u16 \<Rightarrow> (pldm_entity \<rightharpoonup> string)
     \<Rightarrow> (pldm_entity \<rightharpoonup> string) option" where
  "auxNameLoop ent shared auxName instanceNumber count entityAuxNames =
     (if uint instanceNumber \<le> uint (entity_instance_num ent) + uint shared then
        auxNameLoop ent shared auxName (instanceNumber + 1) (count + 1)
          (emplace entityAuxNames ent (auxName @ ''_'' @ to_string (unat count)))
      else Some entityAuxNames)"

text \<open>
  \<^verbatim>\<open>parseEntityAuxNamesPDR\<close> on the map \<^verbatim>\<open>_entityAuxNames\<close>. \<open>getAuxName\<close> is the
  decoder of the name strings (name string count, length and bytes of the names to the
  English name, if there is a valid one); the claim is about what is done with its
  result, so it is a parameter.
\<close>

definition parseEntityAuxNamesPDR ::
    "(u8 \<Rightarrow> nat \<Rightarrow> u8 list \<Rightarrow> string option) \<Rightarrow> u8 list \<Rightarrow> (pldm_entity \<rightharpoonup> string)
     \<Rightarrow> (pldm_entity \<rightharpoonup> string) option" where
  "parseEntityAuxNamesPDR getAuxName pdrData entityAuxNames =
     (if length pdrData \<ge> minEntityAuxNamesPDRLen then
        (case getAuxName (namePDR_name_string_count pdrData)
                (length pdrData - minEntityAuxNamesPDRLen)
                (drop minEntityAuxNamesPDRLen pdrData) of
           None \<Rightarrow> Some entityAuxNames
         | Some auxName \<Rightarrow>
             if namePDR_shared_name_count pdrData \<le> 0
             then Some (emplace entityAuxNames (namePDR_entity pdrData) auxName)
             else auxNameLoop (namePDR_entity pdrData) (namePDR_shared_name_count pdrData)
                    auxName (entity_instance_num (namePDR_entity pdrData)) 0 entityAuxNames)
      else Some entityAuxNames)"

text \<open>
  Two Entity Auxiliary Names PDRs for an entity of type 0x0042 in container 1, with a
  shared name count of 2 and of 1: the first starts the range at instance 100, the second
  at instance 65535. The name bytes are the tag \<^verbatim>\<open>en\<close> and the name \<^verbatim>\<open>fan\<close> in
  UTF-16BE.
\<close>

definition aux_names_pdr_100 :: "u8 list" where
  "aux_names_pdr_100 =
     [0x07, 0, 0, 0, 1, 10, 0, 0, 20, 0,
      0x42, 0x00, 100, 0, 1, 0, 2, 1,
      0x65, 0x6E, 0, 0, 0x66, 0, 0x61, 0, 0x6E, 0, 0]"

definition aux_names_pdr_65535 :: "u8 list" where
  "aux_names_pdr_65535 =
     [0x07, 0, 0, 0, 1, 10, 0, 0, 20, 0,
      0x42, 0x00, 0xFF, 0xFF, 1, 0, 1, 1,
      0x65, 0x6E, 0, 0, 0x66, 0, 0x61, 0, 0x6E, 0, 0]"

section \<open>PDR retrieval\<close>

text \<open>A 32-bit little-endian field of a record, at a byte offset.\<close>

definition le32 :: "u8 list \<Rightarrow> nat \<Rightarrow> u32" where
  "le32 bs i = ucast (bs ! i) OR push_bit 8 (ucast (bs ! (i + 1)))
                 OR push_bit 16 (ucast (bs ! (i + 2))) OR push_bit 24 (ucast (bs ! (i + 3)))"

datatype transfer_op_flag = PLDM_GET_NEXTPART | PLDM_GET_FIRSTPART

text \<open>
  What \<^verbatim>\<open>decode_get_pdr_resp\<close> (a function of the protocol library) extracts from
  a GetPDR response: its return code and the decoded fields.
\<close>

record get_pdr_resp =
  resp_rc :: int
  resp_completionCode :: u8
  resp_nextRecordHandle :: u32
  resp_nextDataTransferHandle :: u32
  resp_transferFlag :: u8
  resp_recordData :: "u8 list"
  resp_transferCRC :: u8

text \<open>The fields of a GetPDR request that vary (the request count is a constant).\<close>

record get_pdr_req =
  req_recordHandle :: u32
  req_dataTransferHandle :: u32
  req_transferOpFlag :: transfer_op_flag
  req_recordChangeNumber :: u16

text \<open>
  One round of the multi-part loop, seen from the daemon: the request could not be
  encoded, or it was sent and \<^verbatim>\<open>sendReceivePldmMessage\<close> failed, or a response
  came back.
\<close>

datatype exchange = EncodeFailed | NoResponse | Response get_pdr_resp

text \<open>
  The terminus: \<open>requests\<close> logs the GetPDR requests sent, \<open>script\<close> holds the outcomes
  of the rounds to come. A round beyond the script gets no response.
\<close>

record pdr_device =
  requests :: "get_pdr_req list"
  script :: "exchange list"

text \<open>
  The variables \<^verbatim>\<open>getDevicePDRRecord\<close> shares with \<^verbatim>\<open>handleGetPDRResp\<close> by
  reference.
\<close>

record pdr_transfer =
  nextRecordHandle :: u32
  transferOpFlag :: transfer_op_flag
  recordChangeNumber :: u16
  dataTransferHandle :: u32
  transferComplete :: bool
  pdrRecord :: "u8 list"

definition PLDM_SUCCESS :: int where "PLDM_SUCCESS = 0"

definition validatePLDMRespDecode :: "int \<Rightarrow> u8 \<Rightarrow> bool" where
  "validatePLDMRespDecode rc completionCode =
     (if rc \<noteq> PLDM_SUCCESS then False
      else if uint completionCode \<noteq> PLDM_SUCCESS then False
      else True)"

text \<open>
  \<^verbatim>\<open>handleGetPDRResp\<close>. \<open>crc8\<close> is the checksum function of the protocol library,
  a parameter. On a START fragment the change number is read from the header of the
  assembled record, at bytes 6 and 7; with fewer than 8 bytes assembled that read is
  outside the vector and the result is \<open>None\<close>.
\<close>

definition handleGetPDRResp ::
    "(u8 list \<Rightarrow> u8) \<Rightarrow> get_pdr_resp \<Rightarrow> pdr_transfer \<Rightarrow> (bool \<times> pdr_transfer) option" where
  "handleGetPDRResp crc8 resp t =
     (if \<not> validatePLDMRespDecode (resp_rc resp) (resp_completionCode resp) then Some (False, t)
      else
        let t1 = t\<lparr>nextRecordHandle := resp_nextRecordHandle resp,
                   pdrRecord := pdrRecord t @ resp_recordData resp\<rparr>
        in if resp_transferFlag resp = PLDM_START \<and> length (pdrRecord t1) < 8 then None
           else
             let t2 = (if resp_transferFlag resp = PLDM_START
                       then t1\<lparr>recordChangeNumber := le16 (pdrRecord t1) 6\<rparr> else t1);
                 t3 = t2\<lparr>dataTransferHandle := resp_nextDataTransferHandle resp\<rparr>
             in if resp_transferFlag resp = PLDM_END
                   \<or> resp_transferFlag resp = PLDM_START_AND_END then
                  (if resp_transferFlag resp = PLDM_END
                      \<and> crc8 (pdrRecord t3) \<noteq> resp_transferCRC resp
                   then Some (False, t3\<lparr>transferComplete := True\<rparr>)
                   else Some (True, t3\<lparr>transferComplete := True\<rparr>))
                else Some (True, t3\<lparr>transferComplete := False,
                                     transferOpFlag := PLDM_GET_NEXTPART\<rparr>))"

definition get_pdr_request :: "u32 \<Rightarrow> pdr_transfer \<Rightarrow> get_pdr_req" where
  "get_pdr_request recordHandle t =
     \<lparr>req_recordHandle = recordHandle, req_dataTransferHandle = dataTransferHandle t,
      req_transferOpFlag = transferOpFlag t, req_recordChangeNumber = recordChangeNumber t\<rparr>"

text \<open>
  The \<^verbatim>\<open>do ... while (!transferComplete)\<close> loop of \<^verbatim>\<open>getDevicePDRRecord\<close>, by
  recursion on the script of rounds. \<open>limit\<close> is \<^verbatim>\<open>multipartTransferLimit\<close>, which
  is decremented before it is tested.
\<close>

fun getPDRLoop ::
    "(u8 list \<Rightarrow> u8) \<Rightarrow> nat \<Rightarrow> u32 \<Rightarrow> nat \<Rightarrow> pdr_transfer \<Rightarrow> get_pdr_req list \<Rightarrow> exchange list
     \<Rightarrow> (pdr_transfer \<times> pdr_device) option" where
  "getPDRLoop crc8 largest recordHandle limit t reqs [] =
     Some (t, \<lparr>requests = reqs @ [get_pdr_request recordHandle t], script = []\<rparr>)"
| "getPDRLoop crc8 largest recordHandle limit t reqs (EncodeFailed # rest) =
     Some (t, \<lparr>requests = reqs, script = rest\<rparr>)"
| "getPDRLoop crc8 largest recordHandle limit t reqs (NoResponse # rest) =
     Some (t, \<lparr>requests = reqs @ [get_pdr_request recordHandle t], script = rest\<rparr>)"
| "getPDRLoop crc8 largest recordHandle limit t reqs (Response resp # rest) =
     (let reqs1 = reqs @ [get_pdr_request recordHandle t]
      in case handleGetPDRResp crc8 resp t of
           None \<Rightarrow> None
         | Some (ret, t1) \<Rightarrow>
             if \<not> ret then
               Some (t1\<lparr>transferComplete := False\<rparr>, \<lparr>requests = reqs1, script = rest\<rparr>)
             else if length (pdrRecord t1) > largest \<or> limit - 1 = 0 then
               Some (t1\<lparr>transferComplete := False\<rparr>, \<lparr>requests = reqs1, script = rest\<rparr>)
             else if \<not> transferComplete t1 then
               getPDRLoop crc8 largest recordHandle (limit - 1) t1 reqs1 rest
             else Some (t1, \<lparr>requests = reqs1, script = rest\<rparr>))"

text \<open>The variables as \<^verbatim>\<open>getDevicePDRRecord\<close> and its caller initialise them.\<close>

definition initial_transfer :: pdr_transfer where
  "initial_transfer =
     \<lparr>nextRecordHandle = 0, transferOpFlag = PLDM_GET_FIRSTPART, recordChangeNumber = 0,
      dataTransferHandle = 0, transferComplete = False, pdrRecord = []\<rparr>"

text \<open>
  \<^verbatim>\<open>getDevicePDRRecord\<close>: the returned flag, the next record handle, the record
  (cleared on failure) and the terminus.
\<close>

definition getDevicePDRRecord ::
    "(u8 list \<Rightarrow> u8) \<Rightarrow> nat \<Rightarrow> u32 \<Rightarrow> pdr_device \<Rightarrow> (bool \<times> u32 \<times> u8 list \<times> pdr_device) option" where
  "getDevicePDRRecord crc8 largest recordHandle dev =
     (case getPDRLoop crc8 largest recordHandle 100 initial_transfer
             (requests dev) (script dev) of
        None \<Rightarrow> None
      | Some (t, dev1) \<Rightarrow>
          if \<not> transferComplete t then Some (False, nextRecordHandle t, [], dev1)
          else Some (True, nextRecordHandle t, pdrRecord t, dev1))"

lemma getPDRLoop_consumes:
  assumes "getPDRLoop crc8 largest recordHandle limit t reqs scr = Some (t', dev')"
      and "\<not> transferComplete t" and "transferComplete t'"
  shows "length (script dev') < length scr"
  using assms
proof (induction crc8 largest recordHandle limit t reqs scr rule: getPDRLoop.induct)
  case (4 crc8 largest recordHandle limit t reqs resp rest)
  then show ?case
    by (fastforce simp: Let_def handleGetPDRResp_def
          split: option.splits if_splits prod.splits)
qed auto

lemma getDevicePDRRecord_consumes:
  assumes "getDevicePDRRecord crc8 largest recordHandle dev = Some (True, nrh, record, dev')"
  shows "length (script dev') < length (script dev)"
  using assms
        getPDRLoop_consumes [of crc8 largest recordHandle 100 initial_transfer "requests dev"
                               "script dev"]
  by (auto simp: getDevicePDRRecord_def initial_transfer_def
        split: option.splits if_splits prod.splits)

text \<open>
  The \<^verbatim>\<open>do ... while (recordHandle && --recordCount)\<close> loop of
  \<^verbatim>\<open>getDevicePDRRepo\<close> on the map \<^verbatim>\<open>devicePDRs\<close>. The handle under which a record
  is stored is read from the first four bytes of the record; a shorter non-empty record
  makes that read leave the vector (\<open>None\<close>). It ends because every record fetched
  takes a round of the script.
\<close>

function getDevicePDRRepoLoop ::
    "(u8 list \<Rightarrow> u8) \<Rightarrow> nat \<Rightarrow> u32 \<Rightarrow> u32 \<Rightarrow> (u32 \<rightharpoonup> u8 list) \<Rightarrow> pdr_device
     \<Rightarrow> (bool \<times> (u32 \<rightharpoonup> u8 list) \<times> pdr_device) option" where
  "getDevicePDRRepoLoop crc8 largest recordHandle recordCount devicePDRs dev =
     (case getDevicePDRRecord crc8 largest recordHandle dev of
        None \<Rightarrow> None
      | Some (ok, nextHandle, record, dev1) \<Rightarrow>
          if \<not> ok then Some (False, devicePDRs, dev1)
          else if record \<noteq> [] \<and> length record < 4 then None
          else
            let devicePDRs1 = (if record \<noteq> [] then emplace devicePDRs (le32 record 0) record
                               else devicePDRs)
            in if nextHandle \<noteq> 0 \<and> recordCount - 1 \<noteq> 0
               then getDevicePDRRepoLoop crc8 largest nextHandle (recordCount - 1)
                      devicePDRs1 dev1
               else Some (True, devicePDRs1, dev1))"
  by pat_completeness auto
termination
  by (relation "measure (\<lambda>(crc8, largest, recordHandle, recordCount, devicePDRs, dev).
                           length (script dev))")
     (auto dest: getDevicePDRRecord_consumes)

declare getDevicePDRRepoLoop.simps [simp del]

definition getDevicePDRRepo ::
    "(u8 list \<Rightarrow> u8) \<Rightarrow> nat \<Rightarrow> u32 \<Rightarrow> (u32 \<rightharpoonup> u8 list) \<Rightarrow> pdr_device
     \<Rightarrow> (bool \<times> (u32 \<rightharpoonup> u8 list) \<times> pdr_device) option" where
  "getDevicePDRRepo crc8 largest recordCount devicePDRs dev =
     getDevicePDRRepoLoop crc8 largest 0 recordCount devicePDRs dev"

text \<open>
  The fetching part of \<^verbatim>\<open>constructPDRRepo\<close>: the loop
  \<^verbatim>\<open>while (noOfCommandTries--)\<close>, the argument being the tries left. The flag of
  the result is false where the function returns false before anything is added to the
  repository, and true where the map goes on to \<^verbatim>\<open>addDevicePDRToRepo\<close>.
\<close>

fun fetchTries ::
    "(u8 list \<Rightarrow> u8) \<Rightarrow> nat \<Rightarrow> u32 \<Rightarrow> nat \<Rightarrow> (u32 \<rightharpoonup> u8 list) \<Rightarrow> pdr_device
     \<Rightarrow> (bool \<times> (u32 \<rightharpoonup> u8 list) \<times> pdr_device) option" where
  "fetchTries crc8 largest recordCount 0 devicePDRs dev = Some (True, devicePDRs, dev)"
| "fetchTries crc8 largest recordCount (Suc noOfCommandTries) devicePDRs dev =
     (case getDevicePDRRepo crc8 largest recordCount devicePDRs dev of
        None \<Rightarrow> None
      | Some (ok, devicePDRs1, dev1) \<Rightarrow>
          if ok then Some (True, devicePDRs1, dev1)
          else if noOfCommandTries = 0 then Some (False, devicePDRs1, dev1)
          else fetchTries crc8 largest recordCount noOfCommandTries Map.empty dev1)"

definition constructPDRRepo_fetch ::
    "(u8 list \<Rightarrow> u8) \<Rightarrow> nat \<Rightarrow> bool \<Rightarrow> u32 \<Rightarrow> pdr_device
     \<Rightarrow> (bool \<times> (u32 \<rightharpoonup> u8 list) \<times> pdr_device) option" where
  "constructPDRRepo_fetch crc8 largest repositoryAvailable recordCount dev =
     (if \<not> repositoryAvailable then Some (False, Map.empty, dev)
      else if recordCount = 0 then Some (False, Map.empty, dev)
      else fetchTries crc8 largest recordCount 3 Map.empty dev)"

text \<open>
  The CRC-8 that DSP0248 prescribes for the transfer CRC (polynomial
  \<open>x\<^sup>8 + x\<^sup>2 + x + 1\<close>, initial value 0), bit by bit; it instantiates \<open>crc8\<close> in the
  examples.
\<close>

definition crc8_bit :: "u8 \<Rightarrow> u8" where
  "crc8_bit c = (if bit c 7 then push_bit 1 c XOR 0x07 else push_bit 1 c)"

definition crc8_byte :: "u8 \<Rightarrow> u8 \<Rightarrow> u8" where
  "crc8_byte c b = (crc8_bit ^^ 8) (c XOR b)"

definition pldm_crc8 :: "u8 list \<Rightarrow> u8" where
  "pldm_crc8 bs = foldl crc8_byte 0 bs"

text \<open>
  The state of the multi-part loop after a sequence of fragments each of which lets the
  loop go round again (decoded, accepted by \<open>handleGetPDRResp\<close>, not final, within the
  size and count limits): the limit left and the transfer variables. \<open>None\<close> if one of
  the fragments ends the loop.
\<close>

fun afterFragments ::
    "(u8 list \<Rightarrow> u8) \<Rightarrow> nat \<Rightarrow> nat \<Rightarrow> pdr_transfer \<Rightarrow> get_pdr_resp list
     \<Rightarrow> (nat \<times> pdr_transfer) option" where
  "afterFragments crc8 largest limit t [] = Some (limit, t)"
| "afterFragments crc8 largest limit t (resp # resps) =
     (case handleGetPDRResp crc8 resp t of
        None \<Rightarrow> None
      | Some (ret, t1) \<Rightarrow>
          if \<not> ret \<or> length (pdrRecord t1) > largest \<or> limit - 1 = 0 \<or> transferComplete t1
          then None
          else afterFragments crc8 largest (limit - 1) t1 resps)"

text \<open>
  A record sent in two fragments of 8 bytes, START then END; the END fragment carries the
  CRC 0x00, which is not the CRC of the 16 bytes, and names 2 as the next record handle.
  The terminus answers every scan with these two fragments.
\<close>

definition start_fragment :: get_pdr_resp where
  "start_fragment =
     \<lparr>resp_rc = 0, resp_completionCode = 0, resp_nextRecordHandle = 2,
      resp_nextDataTransferHandle = 1, resp_transferFlag = PLDM_START,
      resp_recordData = [1, 0, 0, 0, 1, 20, 0, 0], resp_transferCRC = 0\<rparr>"

definition bad_end_fragment :: get_pdr_resp where
  "bad_end_fragment =
     \<lparr>resp_rc = 0, resp_completionCode = 0, resp_nextRecordHandle = 2,
      resp_nextDataTransferHandle = 0, resp_transferFlag = PLDM_END,
      resp_recordData = [6, 0, 1, 2, 3, 4, 5, 6], resp_transferCRC = 0\<rparr>"

definition first_part_request :: get_pdr_req where
  "first_part_request =
     \<lparr>req_recordHandle = 0, req_dataTransferHandle = 0,
      req_transferOpFlag = PLDM_GET_FIRSTPART, req_recordChangeNumber = 0\<rparr>"

definition next_part_request :: get_pdr_req where
  "next_part_request =
     \<lparr>req_recordHandle = 0, req_dataTransferHandle = 1,
      req_transferOpFlag = PLDM_GET_NEXTPART, req_recordChangeNumber = 0\<rparr>"

section \<open>Entity association tree\<close>

text \<open>
  \<^verbatim>\<open>EntityNode\<close>: an entity and the nodes it contains. An Entity Association PDR is
  parsed into a node whose \<open>containerEntity\<close> is the parent and whose contained nodes
  are leaves, one per child. The tree nodes are reached through shared pointers; a node
  of the tree is named here by its path from the root (child indices).
\<close>

datatype EntityNode =
  EntityNode (containerEntity: pldm_entity) (containedEntities: "EntityNode list")

text \<open>The comparison of the three fields that \<^verbatim>\<open>getContainedNode\<close> makes.\<close>

definition sameEntity :: "pldm_entity \<Rightarrow> pldm_entity \<Rightarrow> bool" where
  "sameEntity a b =
     (entity_type a = entity_type b \<and> entity_instance_num a = entity_instance_num b
      \<and> entity_container_id a = entity_container_id b)"

fun nodes :: "EntityNode \<Rightarrow> nat" where
  "nodes (EntityNode e cs) = Suc (sum_list (map nodes cs))"

text \<open>The nodes a node contains, each with its path.\<close>

definition children_with_paths :: "nat list \<Rightarrow> EntityNode \<Rightarrow> (nat list \<times> EntityNode) list" where
  "children_with_paths p n =
     map (\<lambda>i. (p @ [i], containedEntities n ! i)) [0..<length (containedEntities n)]"

lemma nodes_children_with_paths:
  "sum_list (map (\<lambda>(p, c). nodes c) (children_with_paths p n)) < nodes n"
proof (cases n)
  case (EntityNode e cs)
  have "map (\<lambda>(p, c). nodes c) (children_with_paths p n)
          = map nodes (map ((!) cs) [0..<length cs])"
    by (simp add: children_with_paths_def EntityNode comp_def)
  then have "map (\<lambda>(p, c). nodes c) (children_with_paths p n) = map nodes cs"
    by (simp only: map_nth)
  then show ?thesis by (simp add: EntityNode)
qed

text \<open>
  The search of \<^verbatim>\<open>getContainedNode\<close>: the queue holds nodes still to visit; the
  front is compared, then popped and its contained nodes are pushed at the back. The
  result is the first node in breadth-first order with the entity looked for.
\<close>

function bfs :: "pldm_entity \<Rightarrow> (nat list \<times> EntityNode) list \<Rightarrow> nat list option" where
  "bfs e [] = None"
| "bfs e ((p, n) # queue) =
     (if sameEntity (containerEntity n) e then Some p
      else bfs e (queue @ children_with_paths p n))"
  by pat_completeness auto
termination
  by (relation "measure (\<lambda>(e, queue). sum_list (map (\<lambda>(p, c). nodes c) queue))")
     (auto simp: nodes_children_with_paths)

definition getContainedNode :: "EntityNode \<Rightarrow> EntityNode \<Rightarrow> nat list option" where
  "getContainedNode rootNode inputNode = bfs (containerEntity inputNode) [([], rootNode)]"

text \<open>A change made through the pointer to the node at a path.\<close>

fun modifyAt :: "nat list \<Rightarrow> (EntityNode \<Rightarrow> EntityNode) \<Rightarrow> EntityNode \<Rightarrow> EntityNode" where
  "modifyAt [] f n = f n"
| "modifyAt (i # p) f n =
     (if i < length (containedEntities n)
      then EntityNode (containerEntity n)
             ((containedEntities n)[i := modifyAt p f (containedEntities n ! i)])
      else n)"

text \<open>
  \<^verbatim>\<open>insertToAssociationTree\<close>: \<^verbatim>\<open>copy_if\<close> over the children of the association
  with a back inserter into the parent's contained nodes. The predicate searches from
  \<^verbatim>\<open>parentNode\<close>, which already holds the children copied before.
\<close>

fun copyChildren :: "EntityNode \<Rightarrow> EntityNode list \<Rightarrow> EntityNode" where
  "copyChildren parentNode [] = parentNode"
| "copyChildren parentNode (containedEntity # rest) =
     (if getContainedNode parentNode containedEntity = None
      then copyChildren
             (EntityNode (containerEntity parentNode)
                (containedEntities parentNode @ [containedEntity])) rest
      else copyChildren parentNode rest)"

definition insertToAssociationTree :: "EntityNode \<Rightarrow> EntityNode \<Rightarrow> EntityNode" where
  "insertToAssociationTree parentNode entityAssociation =
     copyChildren parentNode (containedEntities entityAssociation)"

text \<open>
  \<^verbatim>\<open>extractRootNode\<close>: the \<^verbatim>\<open>remove_if\<close> over the associations; the result is
  the root (if any association has the container id) and the associations kept.
\<close>

fun extractRootNode_from ::
    "u16 \<Rightarrow> EntityNode option \<Rightarrow> EntityNode list \<Rightarrow> EntityNode option \<times> EntityNode list" where
  "extractRootNode_from containerID rootNode [] = (rootNode, [])"
| "extractRootNode_from containerID rootNode (entityAssociation # rest) =
     (if entity_container_id (containerEntity entityAssociation) \<noteq> containerID then
        (case extractRootNode_from containerID rootNode rest of
           (r, kept) \<Rightarrow> (r, entityAssociation # kept))
      else
        let rootNode1 = (case rootNode of
                           None \<Rightarrow> EntityNode (containerEntity entityAssociation) []
                         | Some r \<Rightarrow> r)
        in extractRootNode_from containerID
             (Some (insertToAssociationTree rootNode1 entityAssociation)) rest)"

definition extractRootNode :: "EntityNode list \<Rightarrow> u16 \<Rightarrow> EntityNode option \<times> EntityNode list" where
  "extractRootNode entityAssociations containerID =
     extractRootNode_from containerID None entityAssociations"

text \<open>
  One pass of the \<^verbatim>\<open>remove_if\<close> in \<^verbatim>\<open>createEntityAssociationTree\<close>: an
  association whose parent is found in the tree is inserted under that node and removed.
\<close>

fun attachPass :: "EntityNode \<Rightarrow> EntityNode list \<Rightarrow> EntityNode \<times> EntityNode list" where
  "attachPass rootNode [] = (rootNode, [])"
| "attachPass rootNode (entityAssociation # rest) =
     (case getContainedNode rootNode entityAssociation of
        Some node \<Rightarrow>
          attachPass
            (modifyAt node (\<lambda>parentNode. insertToAssociationTree parentNode entityAssociation)
               rootNode) rest
      | None \<Rightarrow>
          (case attachPass rootNode rest of
             (r, kept) \<Rightarrow> (r, entityAssociation # kept)))"

function attachLoop :: "EntityNode \<Rightarrow> EntityNode list \<Rightarrow> EntityNode" where
  "attachLoop rootNode entityAssociations =
     (if entityAssociations = [] then rootNode
      else case attachPass rootNode entityAssociations of
             (rootNode1, kept) \<Rightarrow>
               if \<not> length kept < length entityAssociations then rootNode1
               else attachLoop rootNode1 kept)"
  by pat_completeness auto
termination
  by (relation "measure (\<lambda>(rootNode, entityAssociations). length entityAssociations)")
     (auto simp: case_prod_beta, metis snd_conv)

declare attachLoop.simps [simp del]

text \<open>
  \<^verbatim>\<open>createEntityAssociationTree\<close>: the tree it leaves in
  \<^verbatim>\<open>_entityAssociationTree\<close>, \<open>None\<close> when no root is found.
\<close>

definition createEntityAssociationTree :: "u16 \<Rightarrow> EntityNode list \<Rightarrow> EntityNode option" where
  "createEntityAssociationTree containerID entityAssociations =
     (case extractRootNode entityAssociations containerID of
        (None, kept) \<Rightarrow> None
      | (Some rootNode, kept) \<Rightarrow> Some (attachLoop rootNode kept))"

text \<open>The entities of all the nodes of a tree.\<close>

fun entitiesOf :: "EntityNode \<Rightarrow> pldm_entity list" where
  "entitiesOf (EntityNode e cs) = e # concat (map entitiesOf cs)"

text \<open>
  A chassis in the container of the terminus locator (container id 0) and a board in the
  container 1; one association puts the board into the chassis, another puts the chassis
  into the board.
\<close>

definition chassis :: pldm_entity where
  "chassis = \<lparr>entity_type = 45, entity_instance_num = 1, entity_container_id = 0\<rparr>"

definition board :: pldm_entity where
  "board = \<lparr>entity_type = 64, entity_instance_num = 1, entity_container_id = 1\<rparr>"

definition cyclic_associations :: "EntityNode list" where
  "cyclic_associations =
     [EntityNode chassis [EntityNode board []], EntityNode board [EntityNode chassis []]]"

section \<open>Theorems\<close>

subsection \<open>Firmware update\<close>

lemma setTransferFlag_total: "setTransferFlag offset len dataSize \<noteq> None"
  by (auto simp: setTransferFlag_def not_less)

lemma size_t_sum_no_wrap:
  fixes offset len dataSize :: "'a::len word"
  assumes "unat offset + unat len < 2 ^ LENGTH('a)"
  shows "offset + len < dataSize \<longleftrightarrow> unat offset + unat len < unat dataSize"
proof -
  have "unat (offset + len) = unat offset + unat len"
    using assms by (simp add: unat_word_ariths)
  then show ?thesis by (simp add: word_less_nat_alt)
qed

text \<open>
  C8. With \<open>dataSize > 0\<close>, \<open>setTransferFlag offset length dataSize\<close> always returns a
  flag, and it is the one of the table: START when \<open>offset = 0\<close> and
  \<open>offset + length < dataSize\<close>, MIDDLE when \<open>offset > 0\<close> and
  \<open>offset + length < dataSize\<close>, START_AND_END when \<open>offset = 0\<close> and
  \<open>offset + length \<ge> dataSize\<close>, END when \<open>offset > 0\<close> and
  \<open>offset + length \<ge> dataSize\<close>. The sum is the \<^verbatim>\<open>size_t\<close> sum of the code; where
  it does not wrap, as for every chunk that lies within the data, the same table holds
  for the sum of the numbers.
\<close>

theorem setTransferFlag_table:
  fixes offset len dataSize :: "'a::len word"
  assumes "dataSize > 0"
  shows "setTransferFlag offset len dataSize =
           Some (if offset = 0 \<and> offset + len < dataSize then PLDM_START
                 else if offset > 0 \<and> offset + len < dataSize then PLDM_MIDDLE
                 else if offset = 0 \<and> offset + len \<ge> dataSize then PLDM_START_AND_END
                 else PLDM_END)
       \<and> (unat offset + unat len < 2 ^ LENGTH('a) \<longrightarrow>
            setTransferFlag offset len dataSize =
              Some (if unat offset = 0 \<and> unat offset + unat len < unat dataSize
                      then PLDM_START
                    else if unat offset > 0 \<and> unat offset + unat len < unat dataSize
                      then PLDM_MIDDLE
                    else if unat offset = 0 \<and> unat offset + unat len \<ge> unat dataSize
                      then PLDM_START_AND_END
                    else PLDM_END))"
proof -
  have w: "setTransferFlag offset len dataSize =
           Some (if offset = 0 \<and> offset + len < dataSize then PLDM_START
                 else if offset > 0 \<and> offset + len < dataSize then PLDM_MIDDLE
                 else if offset = 0 \<and> offset + len \<ge> dataSize then PLDM_START_AND_END
                 else PLDM_END)"
    by (auto simp: setTransferFlag_def word_greater_zero_iff)
  have z: "unat offset = 0 \<longleftrightarrow> offset = 0"
    by (simp add: unat_eq_0)
  show ?thesis
  proof (intro conjI impI)
    show "setTransferFlag offset len dataSize =
           Some (if offset = 0 \<and> offset + len < dataSize then PLDM_START
                 else if offset > 0 \<and> offset + len < dataSize then PLDM_MIDDLE
                 else if offset = 0 \<and> offset + len \<ge> dataSize then PLDM_START_AND_END
                 else PLDM_END)"
      by (rule w)
  next
    assume "unat offset + unat len < 2 ^ LENGTH('a)"
    from size_t_sum_no_wrap [OF this, of dataSize]
    show "setTransferFlag offset len dataSize =
              Some (if unat offset = 0 \<and> unat offset + unat len < unat dataSize
                      then PLDM_START
                    else if unat offset > 0 \<and> unat offset + unat len < unat dataSize
                      then PLDM_MIDDLE
                    else if unat offset = 0 \<and> unat offset + unat len \<ge> unat dataSize
                      then PLDM_START_AND_END
                    else PLDM_END)"
      by (auto simp: setTransferFlag_def z not_less)
  qed
qed

theorem setTransferFlag_table_witness:
  "(100 :: 64 word) > 0
   \<and> unat (96 :: 64 word) + unat (4 :: 64 word) < 2 ^ LENGTH(64)
   \<and> setTransferFlag (0 :: 64 word) 32 100 = Some PLDM_START
   \<and> setTransferFlag (32 :: 64 word) 32 100 = Some PLDM_MIDDLE
   \<and> setTransferFlag (0 :: 64 word) 100 100 = Some PLDM_START_AND_END
   \<and> setTransferFlag (96 :: 64 word) 4 100 = Some PLDM_END"
  using setTransferFlag_table [of "100 :: 64 word" 0 32]
        setTransferFlag_table [of "100 :: 64 word" 32 32]
        setTransferFlag_table [of "100 :: 64 word" 0 100]
        setTransferFlag_table [of "100 :: 64 word" 96 4]
  by simp

text \<open>
  C9. While the expected command is RequestFirmwareData: a request shorter than the header
  is dropped with the session untouched; a TransferComplete request switches the expected
  command to TransferComplete and marks the transfer completed, whatever TID sent it; the
  request is stored (with its tag, the matched mark and one cancellation of the idle
  timer) exactly when the sender's TID is the session's and the command equals the
  expected command after the possible switch; a request that is neither TransferComplete
  nor stored leaves the whole session state as it was.
\<close>

theorem validateReqForFWUpdCmd_expecting_RequestFirmwareData:
  assumes "expectedCmd fw = PLDM_REQUEST_FIRMWARE_DATA"
  shows "(length req < hdrSize \<longrightarrow> validateReqForFWUpdCmd tid tag req fw = fw)
       \<and> (hdrSize \<le> length req \<longrightarrow>
            (let fw' = validateReqForFWUpdCmd tid tag req fw;
                 matched = (tid = currentTid fw \<and> hdr_command req = expectedCmd fw')
             in currentTid fw' = currentTid fw
              \<and> (hdr_command req = PLDM_TRANSFER_COMPLETE \<longrightarrow>
                    expectedCmd fw' = PLDM_TRANSFER_COMPLETE \<and> fdTransferCompleted fw')
              \<and> (hdr_command req \<noteq> PLDM_TRANSFER_COMPLETE \<longrightarrow>
                    expectedCmd fw' = expectedCmd fw
                  \<and> fdTransferCompleted fw' = fdTransferCompleted fw)
              \<and> (matched \<longrightarrow>
                    fdReq fw' = req \<and> fdReqMatched fw' \<and> msgTag fw' = tag
                  \<and> timerCancels fw' = Suc (timerCancels fw))
              \<and> (\<not> matched \<longrightarrow>
                    fdReq fw' = fdReq fw \<and> fdReqMatched fw' = fdReqMatched fw
                  \<and> msgTag fw' = msgTag fw \<and> timerCancels fw' = timerCancels fw)
              \<and> (\<not> matched \<and> hdr_command req \<noteq> PLDM_TRANSFER_COMPLETE \<longrightarrow> fw' = fw)))"
  using assms by (auto simp: validateReqForFWUpdCmd_def Let_def)

theorem validateReqForFWUpdCmd_expecting_RequestFirmwareData_witness:
  "expectedCmd fw_session = PLDM_REQUEST_FIRMWARE_DATA
   \<and> validateReqForFWUpdCmd 1 5 [0x80, 0x05] fw_session = fw_session
   \<and> validateReqForFWUpdCmd 2 5 [0x80, 0x05, 0x16, 0x00] fw_session
       = fw_session\<lparr>expectedCmd := PLDM_TRANSFER_COMPLETE, fdTransferCompleted := True\<rparr>
   \<and> validateReqForFWUpdCmd 1 5 [0x80, 0x05, 0x15, 0x00] fw_session
       = fw_session\<lparr>msgTag := 5, fdReqMatched := True, fdReq := [0x80, 0x05, 0x15, 0x00],
                      timerCancels := 1\<rparr>
   \<and> validateReqForFWUpdCmd 1 5 [0x80, 0x05, 0x16, 0x00] fw_session
       = fw_session\<lparr>expectedCmd := PLDM_TRANSFER_COMPLETE, fdTransferCompleted := True,
                      msgTag := 5, fdReqMatched := True, fdReq := [0x80, 0x05, 0x16, 0x00],
                      timerCancels := 1\<rparr>
   \<and> validateReqForFWUpdCmd 1 5 [0x80, 0x05, 0x17, 0x00] fw_session = fw_session"
  using validateReqForFWUpdCmd_expecting_RequestFirmwareData [of fw_session "[0x80, 0x05]" 1 5]
        validateReqForFWUpdCmd_expecting_RequestFirmwareData
          [of fw_session "[0x80, 0x05, 0x16, 0x00]" 2 5]
        validateReqForFWUpdCmd_expecting_RequestFirmwareData
          [of fw_session "[0x80, 0x05, 0x15, 0x00]" 1 5]
        validateReqForFWUpdCmd_expecting_RequestFirmwareData
          [of fw_session "[0x80, 0x05, 0x16, 0x00]" 1 5]
        validateReqForFWUpdCmd_expecting_RequestFirmwareData
          [of fw_session "[0x80, 0x05, 0x17, 0x00]" 1 5]
  by (simp add: fw_session_def validateReqForFWUpdCmd_def hdrSize_def hdr_command_def
        PLDM_REQUEST_FIRMWARE_DATA_def PLDM_TRANSFER_COMPLETE_def Let_def)

subsection \<open>Transport mediation: the reserve-bandwidth interlock\<close>

text \<open>
  C2. While a reservation is held, a send-and-receive or a one-way send whose TID and
  header type are not the holder's pair returns failure with the transport untouched
  (nothing sent, no scripted outcome consumed) and the caller's response buffer as it
  was; a release that succeeds was invoked with the holder's pair; a release invoked
  with any other pair returns failure and leaves the reservation state as it was.
\<close>

theorem reserve_bandwidth_interlock:
  assumes "rsvBWActive st"
  shows "(2 \<le> length req \<and> (tid, hdr_type req) \<noteq> (reservedTID st, reservedPLDMType st) \<longrightarrow>
            sendReceivePldmMessage st tid retryCount req resp eid tr = Some (False, resp, tr)
          \<and> sendPldmMessage st tid retryCount mTag tagOwner req tr = Some (False, tr))
       \<and> (fst (releaseBandwidth invTid invType st tid' ty rc) \<longrightarrow>
            tid' = reservedTID st \<and> ty = reservedPLDMType st)
       \<and> ((tid', ty) \<noteq> (reservedTID st, reservedPLDMType st) \<longrightarrow>
            releaseBandwidth invTid invType st tid' ty rc = (False, st))"
  using assms
  by (auto simp: sendReceivePldmMessage_def sendPldmMessage_def validateReserveBW_def
        releaseBandwidth_def split: option.splits)

theorem reserve_bandwidth_interlock_witness:
  "rsvBWActive reserved_by_1
   \<and> sendReceivePldmMessage reserved_by_1 2 3 [0x81, 0x05, 0x10] [] None
        \<lparr>sent = [], replies = [(False, [0x01, 0x01, 0x05, 0x10, 0x00])], sendResults = []\<rparr>
       = Some (False, [],
           \<lparr>sent = [], replies = [(False, [0x01, 0x01, 0x05, 0x10, 0x00])], sendResults = []\<rparr>)
   \<and> sendPldmMessage reserved_by_1 1 3 0 False [0x01, 0x02, 0x11, 0x00]
        \<lparr>sent = [], replies = [], sendResults = [(False, 0)]\<rparr>
       = Some (False, \<lparr>sent = [], replies = [], sendResults = [(False, 0)]\<rparr>)
   \<and> fst (releaseBandwidth 0xFF 0xFF reserved_by_1 1 5 0)
   \<and> releaseBandwidth 0xFF 0xFF reserved_by_1 2 5 0 = (False, reserved_by_1)"
proof -
  have a: "rsvBWActive reserved_by_1"
    by (simp add: reserved_by_1_def)
  have r: "fst (releaseBandwidth 0xFF 0xFF reserved_by_1 1 5 0)"
    by (simp add: releaseBandwidth_def reserved_by_1_def getMappedEID_def)
  from reserve_bandwidth_interlock
         [OF a, where req = "[0x81, 0x05, 0x10]" and tid = 2 and retryCount = 3
            and resp = "[]" and eid = None
            and tr = "\<lparr>sent = [], replies = [(False, [0x01, 0x01, 0x05, 0x10, 0x00])],
                      sendResults = []\<rparr>"
            and mTag = 0 and tagOwner = False and invTid = "0xFF" and invType = "0xFF"
            and tid' = 2 and ty = 5 and rc = 0]
       reserve_bandwidth_interlock
         [OF a, where req = "[0x01, 0x02, 0x11, 0x00]" and tid = 1 and retryCount = 3
            and resp = "[]" and eid = None
            and tr = "\<lparr>sent = [], replies = [], sendResults = [(False, 0)]\<rparr>"
            and mTag = 0 and tagOwner = False and invTid = "0xFF" and invType = "0xFF"
            and tid' = 1 and ty = 5 and rc = 0]
       a r
  show ?thesis
    by (simp add: reserved_by_1_def hdr_type_def PLDM_MSG_TYPE_MASK_def)
qed

subsection \<open>Transport mediation: the retry loop\<close>

lemmas transport_eval =
  sendReceivePldmMessage_def sendReceiveAttempt_def doSendReceievePldmMessage_def
  validateReserveBW_def getMappedEID_def getInstanceId_def getPldmPacketType_def
  hdr_type_def idle_mediator_def maxRetryCount_def minPldmMsgSize_def mctp_pldm_def
  PLDM_RESPONSE_def PLDM_RQ_D_MASK_def PLDM_RQ_D_SHIFT_def PLDM_INSTANCE_ID_MASK_def
  PLDM_MSG_TYPE_MASK_def

text \<open>
  C3. The claim has the request retried whenever the rq/D bits of the received packet
  say it is not a response. The code reads these bits from the first byte of the
  transport buffer, which is the MCTP message type and not the PLDM header, so for a
  buffer typed PLDM the check always passes. Here the request with instance id 1 is
  answered by a packet whose PLDM header has the request bit set (its rq/D bits read 2,
  not \<open>PLDM_RESPONSE\<close>): the first attempt returns it to the caller as the response.
\<close>

theorem sendReceive_returns_request_packet:
  "sendReceivePldmMessage idle_mediator 1 3 [0x81, 0x02, 0x11] [] None
       \<lparr>sent = [], replies = [(False, [0x01, 0x81, 0x02, 0x11])], sendResults = []\<rparr>
     = Some (True, [0x81, 0x02, 0x11],
         \<lparr>sent = [(8, [0x01, 0x81, 0x02, 0x11])], replies = [], sendResults = []\<rparr>)
   \<and> getPldmPacketType [0x81, 0x02, 0x11] = Some 2
   \<and> Some 2 \<noteq> Some PLDM_RESPONSE"
  by (simp add: transport_eval numeral_3_eq_3 drop_bit_eq_div Let_def)

text \<open>
  C4. The MCTP tag is inserted only in the first iteration, and it is erased from the
  request as soon as a response typed PLDM arrives, before the instance ids are
  compared. After an instance id mismatch the next attempt therefore hands the transport
  the bare PLDM request: the second buffer of the log starts with the header byte 0x81
  and not with the tag; a further attempt sends a buffer that has lost its first header
  byte as well.
\<close>

theorem sendReceive_retry_sends_untagged_request:
  "sendReceivePldmMessage idle_mediator 1 3 [0x81, 0x02, 0x11] [] None
       \<lparr>sent = [],
        replies = [(False, [0x01, 0x02, 0x02, 0x11, 0x00]), (False, [0x01, 0x01, 0x02, 0x11, 0x00])],
        sendResults = []\<rparr>
     = Some (False, [],
         \<lparr>sent = [(8, [0x01, 0x81, 0x02, 0x11]), (8, [0x81, 0x02, 0x11]), (8, [0x02, 0x11])],
          replies = [], sendResults = []\<rparr>)
   \<and> hd [0x81, 0x02, 0x11] \<noteq> mctp_pldm"
  by (simp add: transport_eval numeral_3_eq_3 drop_bit_eq_div Let_def)

subsection \<open>State sensor: error debounce and state change events\<close>

lemmas sensor_defs =
  populateSensorValue_def getStateSensorReadings_def handleSensorReading_def
  incrementError_def updateState_def markFunctional_def markAvailable_def
  initializeInterface_def logStateChangeEvent_def errorThreshold_def
  sensorAvailable_def sensorUnavailable_def sensorFunctional_def sensorNonFunctional_def

lemma silent_poll:
  assumes "silent_failure r" "sensor_init h \<noteq> PLDM_SENSOR_DISABLE"
  shows "populateSensorValue ssm r h = map_option (Pair False) (incrementError ssm h)"
  using assms
  by (auto simp: silent_failure_def populateSensorValue_def getStateSensorReadings_def
        handleSensorReading_def split: poll_result.splits)

lemma incrementError_below:
  assumes "Suc (errCount h) < errorThreshold"
  shows "incrementError ssm h = Some (h\<lparr>errCount := Suc (errCount h)\<rparr>)"
  using assms by (simp add: incrementError_def Let_def)

lemma incrementError_at:
  assumes "errorThreshold \<le> errCount h"
  shows "incrementError ssm h = Some h"
  using assms by (simp add: incrementError_def)

lemma incrementError_reach:
  assumes "Suc (errCount h) = errorThreshold"
  shows "incrementError ssm h =
           updateState ssm PLDM_INVALID_VALUE PLDM_INVALID_VALUE sensorAvailable
             sensorNonFunctional (h\<lparr>errCount := errorThreshold\<rparr>)"
  using assms by (simp add: incrementError_def Let_def)

lemma updateState_invalid:
  assumes "sensorInterface h" "availableInterface h" "operationalInterface h"
  shows "\<exists>h'. updateState ssm PLDM_INVALID_VALUE PLDM_INVALID_VALUE sensorAvailable
             sensorNonFunctional h = Some h'
          \<and> errCount h' = errCount h \<and> propFunctional h' = Some False
          \<and> propAvailable h' = Some True \<and> propCurrentState h' = Some PLDM_INVALID_VALUE
          \<and> propPreviousState h' = Some PLDM_INVALID_VALUE
          \<and> sensor_init h' = sensor_init h"
  using assms
  by (simp add: updateState_def markFunctional_def markAvailable_def
        initializeInterface_def sensorAvailable_def sensorNonFunctional_def Let_def)

lemma three_silent_polls:
  assumes ifc: "sensorInterface h" "availableInterface h" "operationalInterface h"
      and en: "sensor_init h \<noteq> PLDM_SENSOR_DISABLE"
      and zero: "errCount h = 0"
      and s: "silent_failure r1" "silent_failure r2" "silent_failure r3" "silent_failure r4"
  shows "polls ssm [r1] h = Some (h\<lparr>errCount := 1\<rparr>)"
    and "polls ssm [r1, r2] h = Some (h\<lparr>errCount := 2\<rparr>)"
    and "\<exists>h3. polls ssm [r1, r2, r3] h = Some h3
           \<and> errCount h3 = errorThreshold \<and> propFunctional h3 = Some False
           \<and> propAvailable h3 = Some True \<and> propCurrentState h3 = Some PLDM_INVALID_VALUE
           \<and> propPreviousState h3 = Some PLDM_INVALID_VALUE
           \<and> populateSensorValue ssm r4 h3 = Some (False, h3)"
proof -
  let ?h1 = "h\<lparr>errCount := 1\<rparr>" and ?h2 = "h\<lparr>errCount := 2\<rparr>"
  have p1: "populateSensorValue ssm r1 h = Some (False, ?h1)"
    using s(1) en zero by (simp add: silent_poll incrementError_below errorThreshold_def)
  have p2: "populateSensorValue ssm r2 ?h1 = Some (False, ?h2)"
    using s(2) en by (simp add: silent_poll incrementError_below errorThreshold_def)
  show "polls ssm [r1] h = Some ?h1"
    using p1 by simp
  show "polls ssm [r1, r2] h = Some ?h2"
    using p1 p2 by simp
  have reach: "incrementError ssm ?h2 =
      updateState ssm PLDM_INVALID_VALUE PLDM_INVALID_VALUE sensorAvailable sensorNonFunctional
        (?h2\<lparr>errCount := errorThreshold\<rparr>)"
    by (rule incrementError_reach) (simp add: errorThreshold_def)
  obtain h3 where h3:
      "updateState ssm PLDM_INVALID_VALUE PLDM_INVALID_VALUE sensorAvailable sensorNonFunctional
         (?h2\<lparr>errCount := errorThreshold\<rparr>) = Some h3"
      "errCount h3 = errorThreshold" "propFunctional h3 = Some False"
      "propAvailable h3 = Some True" "propCurrentState h3 = Some PLDM_INVALID_VALUE"
      "propPreviousState h3 = Some PLDM_INVALID_VALUE" "sensor_init h3 = sensor_init h"
    using updateState_invalid [of "?h2\<lparr>errCount := errorThreshold\<rparr>" ssm] ifc by auto
  have p3: "populateSensorValue ssm r3 ?h2 = Some (False, h3)"
    using s(3) en reach h3(1) by (simp add: silent_poll)
  have p4: "populateSensorValue ssm r4 h3 = Some (False, h3)"
    using s(4) en h3(2,7) by (simp add: silent_poll incrementError_at)
  show "\<exists>h3. polls ssm [r1, r2, r3] h = Some h3
           \<and> errCount h3 = errorThreshold \<and> propFunctional h3 = Some False
           \<and> propAvailable h3 = Some True \<and> propCurrentState h3 = Some PLDM_INVALID_VALUE
           \<and> propPreviousState h3 = Some PLDM_INVALID_VALUE
           \<and> populateSensorValue ssm r4 h3 = Some (False, h3)"
    using p1 p2 p3 p4 h3 by simp
qed

lemma logStateChangeEvent_frame:
  "interfaceInitialized (logStateChangeEvent ssm c p h) = interfaceInitialized h"
  "availableInterface (logStateChangeEvent ssm c p h) = availableInterface h"
  "operationalInterface (logStateChangeEvent ssm c p h) = operationalInterface h"
  "errCount (logStateChangeEvent ssm c p h) = errCount h"
  by (simp_all add: logStateChangeEvent_def split: option.splits prod.splits)

lemma logStateChangeEvent_trace:
  "logStateChangeEvent ssm cur prev h =
     h\<lparr>trace := trace h @
         (case ssm (stateSetID h) of
            None \<Rightarrow> []
          | Some (stateSetName, values) \<Rightarrow>
              (case values cur of
                 None \<Rightarrow> []
               | Some currentInfo \<Rightarrow>
                   (case values prev of
                      None \<Rightarrow> []
                    | Some previousInfo \<Rightarrow>
                        [StateChangeEvent
                           (stateSetName @ '' of '' @ name h
                              @ '' state sensor changed from ''
                              @ stateSetValueName previousInfo @ '' to ''
                              @ stateSetValueName currentInfo)
                           (''OpenBMC.0.1.'' @ redfishMessageID currentInfo)
                           stateSetName (name h)
                           (stateSetValueName previousInfo)
                           (stateSetValueName currentInfo)])))\<rparr>"
  by (simp add: logStateChangeEvent_def split: option.splits prod.splits)

lemma enabled_poll_resets:
  assumes "sensorInterface h" "availableInterface h" "operationalInterface h"
      and "sensor_init h \<noteq> PLDM_SENSOR_DISABLE"
      and "sensor_op_state f = PLDM_SENSOR_ENABLED"
  shows "\<exists>h'. populateSensorValue ssm (Reading f) h = Some (True, h')
           \<and> errCount h' = 0 \<and> propFunctional h' = Some True
           \<and> propCurrentState h' = Some (present_state f)
           \<and> propPreviousState h' = Some (previous_state f)"
  using assms
  by (simp add: populateSensorValue_def getStateSensorReadings_def handleSensorReading_def
        updateState_def markFunctional_def markAvailable_def initializeInterface_def
        sensorAvailable_def sensorFunctional_def Let_def logStateChangeEvent_frame)

text \<open>
  C6, as the claim states it, fails: a poll answered with the operational state
  UNAVAILABLE is a failed poll (\<open>populateSensorValue\<close> returns false and the error
  counter goes from 0 to 1), and it publishes the sensor unavailable and non-functional
  with INVALID readings at once, not after three failures.
\<close>

theorem unavailable_poll_publishes_at_once:
  "populateSensorValue health_states
     (Reading \<lparr>sensor_op_state = PLDM_SENSOR_UNAVAILABLE, present_state = 0, previous_state = 0\<rparr>)
     published_sensor
   = Some (False, published_sensor\<lparr>currentStateReading := 0xFF, previousStateReading := 0xFF,
        errCount := 1, propCurrentState := Some 0xFF, propPreviousState := Some 0xFF,
        propAvailable := Some False, propFunctional := Some False,
        trace := [SetCurrentState 0xFF, SetPreviousState 0xFF, SetAvailable False,
                  SetFunctional False]\<rparr>)
   \<and> propFunctional published_sensor = Some True
   \<and> errCount published_sensor = 0"
  by (simp add: sensor_defs published_sensor_def PLDM_INVALID_VALUE_def
        PLDM_SENSOR_DISABLE_def Let_def)

text \<open>
  C6, amended. For a state sensor whose interfaces exist and whose PDR does not disable
  it, count as failures the polls that publish nothing themselves (no reading obtained,
  or an unrecognised operational state). From an error count of 0, one and two such
  polls change nothing but the counter; the third sets the counter to the threshold 3
  and publishes the sensor available, non-functional, with INVALID current and previous
  state; a further such poll leaves the handler, counter and published state included,
  exactly as it was, as it does from any state whose counter has reached the threshold.
  A single poll answered ENABLED publishes the reading as functional and resets the
  counter to 0.
\<close>

theorem state_sensor_debounce:
  assumes "sensorInterface h" "availableInterface h" "operationalInterface h"
      and "sensor_init h \<noteq> PLDM_SENSOR_DISABLE"
  shows "(errCount h = 0 \<and> silent_failure r1 \<and> silent_failure r2 \<and> silent_failure r3
            \<and> silent_failure r4 \<longrightarrow>
            polls ssm [r1] h = Some (h\<lparr>errCount := 1\<rparr>)
          \<and> polls ssm [r1, r2] h = Some (h\<lparr>errCount := 2\<rparr>)
          \<and> (\<exists>h3. polls ssm [r1, r2, r3] h = Some h3
                \<and> errCount h3 = errorThreshold \<and> propFunctional h3 = Some False
                \<and> propAvailable h3 = Some True
                \<and> propCurrentState h3 = Some PLDM_INVALID_VALUE
                \<and> propPreviousState h3 = Some PLDM_INVALID_VALUE
                \<and> populateSensorValue ssm r4 h3 = Some (False, h3)))
       \<and> (errorThreshold \<le> errCount h \<and> silent_failure r \<longrightarrow>
            populateSensorValue ssm r h = Some (False, h))
       \<and> (sensor_op_state f = PLDM_SENSOR_ENABLED \<longrightarrow>
            (\<exists>h'. populateSensorValue ssm (Reading f) h = Some (True, h')
                \<and> errCount h' = 0 \<and> propFunctional h' = Some True
                \<and> propCurrentState h' = Some (present_state f)
                \<and> propPreviousState h' = Some (previous_state f)))"
  using assms three_silent_polls [of h r1 r2 r3 r4 ssm] enabled_poll_resets [of h f ssm]
  by (simp add: silent_poll incrementError_at)

theorem state_sensor_debounce_witness:
  "polls health_states [NoReading] published_sensor = Some (published_sensor\<lparr>errCount := 1\<rparr>)
   \<and> polls health_states [NoReading, NoReading] published_sensor
       = Some (published_sensor\<lparr>errCount := 2\<rparr>)
   \<and> (\<exists>h3. polls health_states [NoReading, NoReading, NoReading] published_sensor = Some h3
         \<and> errCount h3 = errorThreshold \<and> propFunctional h3 = Some False
         \<and> propAvailable h3 = Some True
         \<and> propCurrentState h3 = Some PLDM_INVALID_VALUE
         \<and> propPreviousState h3 = Some PLDM_INVALID_VALUE
         \<and> populateSensorValue health_states NoReading h3 = Some (False, h3))
   \<and> populateSensorValue health_states NoReading (published_sensor\<lparr>errCount := 3\<rparr>)
       = Some (False, published_sensor\<lparr>errCount := 3\<rparr>)
   \<and> (\<exists>h'. populateSensorValue health_states
              (Reading \<lparr>sensor_op_state = PLDM_SENSOR_ENABLED, present_state = 2,
                        previous_state = 1\<rparr>)
              (published_sensor\<lparr>errCount := 3\<rparr>) = Some (True, h')
         \<and> errCount h' = 0 \<and> propFunctional h' = Some True
         \<and> propCurrentState h' = Some 2 \<and> propPreviousState h' = Some 1)"
  using state_sensor_debounce
          [where h = published_sensor and ssm = health_states and ?r1.0 = NoReading
             and ?r2.0 = NoReading and ?r3.0 = NoReading and ?r4.0 = NoReading
             and r = NoReading
             and f = "\<lparr>sensor_op_state = PLDM_SENSOR_ENABLED, present_state = 2,
                        previous_state = 1\<rparr>"]
        state_sensor_debounce
          [where h = "published_sensor\<lparr>errCount := 3\<rparr>" and ssm = health_states
             and ?r1.0 = NoReading and ?r2.0 = NoReading and ?r3.0 = NoReading
             and ?r4.0 = NoReading and r = NoReading
             and f = "\<lparr>sensor_op_state = PLDM_SENSOR_ENABLED, present_state = 2,
                        previous_state = 1\<rparr>"]
  by (simp add: published_sensor_def silent_failure_def PLDM_SENSOR_DISABLE_def
        errorThreshold_def)

text \<open>
  C7, as the claim states it, fails. First: the sensor's state set id has no entry in
  the state set table; the reading (current 2, previous 3) is valid and differs in both
  states from the published (1, 1), and no event is logged. Second: with the health
  state set, the reading (current 2, previous 1) differs from the published (1, 1) in
  the present state only, the previous state being as published, and the event is
  logged: the code does not ask for both states to differ.
\<close>

theorem state_change_event_counterexample:
  "updateState health_states 2 3 True True (published_sensor\<lparr>stateSetID := 0x8000\<rparr>)
     = Some (published_sensor\<lparr>stateSetID := 0x8000, currentStateReading := 2,
          previousStateReading := 3, propCurrentState := Some 2, propPreviousState := Some 3,
          trace := [SetCurrentState 2, SetPreviousState 3, SetAvailable True,
                    SetFunctional True]\<rparr>)
   \<and> updateState health_states 2 1 True True published_sensor
     = Some (published_sensor\<lparr>currentStateReading := 2, propCurrentState := Some 2,
          trace := [StateChangeEvent
                      ''Health State of cpu state sensor changed from Normal to Non-Critical''
                      ''OpenBMC.0.1.StateSensorNonCritical''
                      ''Health State'' ''cpu'' ''Normal'' ''Non-Critical'',
                    SetCurrentState 2, SetPreviousState 1, SetAvailable True,
                    SetFunctional True]\<rparr>)"
  by (simp add: sensor_defs published_sensor_def health_states_def PLDM_INVALID_VALUE_def
        Let_def)

text \<open>
  C7, amended. For a reading published after the first publication (the interfaces are
  initialised), \<open>updateState\<close> logs a state change event exactly when the present state
  is valid and differs from the last published current state, or the previous state is
  valid and differs from the last published previous state, and the state set table has
  a name for the sensor's state set id and for both state values. The event carries the
  state set name, the sensor name and the names of the previous and the current state,
  and it comes in the trace before the two properties are set.
\<close>

theorem updateState_state_change_event:
  assumes "sensorInterface h" "availableInterface h" "operationalInterface h"
      and "interfaceInitialized h"
  shows "\<exists>h'. updateState ssm cur prev avail func h = Some h'
           \<and> propCurrentState h' = Some cur \<and> propPreviousState h' = Some prev
           \<and> trace h' = trace h
               @ (if (currentStateReading h \<noteq> cur \<and> cur \<noteq> PLDM_INVALID_VALUE)
                      \<or> (previousStateReading h \<noteq> prev \<and> prev \<noteq> PLDM_INVALID_VALUE)
                  then (case ssm (stateSetID h) of
                          None \<Rightarrow> []
                        | Some (stateSetName, values) \<Rightarrow>
                            (case values cur of
                               None \<Rightarrow> []
                             | Some currentInfo \<Rightarrow>
                                 (case values prev of
                                    None \<Rightarrow> []
                                  | Some previousInfo \<Rightarrow>
                                      [StateChangeEvent
                                         (stateSetName @ '' of '' @ name h
                                            @ '' state sensor changed from ''
                                            @ stateSetValueName previousInfo @ '' to ''
                                            @ stateSetValueName currentInfo)
                                         (''OpenBMC.0.1.'' @ redfishMessageID currentInfo)
                                         stateSetName (name h)
                                         (stateSetValueName previousInfo)
                                         (stateSetValueName currentInfo)])))
                  else [])
               @ [SetCurrentState cur, SetPreviousState prev, SetAvailable avail,
                  SetFunctional func]"
proof -
  let ?cond = "(currentStateReading h \<noteq> cur \<and> cur \<noteq> PLDM_INVALID_VALUE)
                 \<or> (previousStateReading h \<noteq> prev \<and> prev \<noteq> PLDM_INVALID_VALUE)"
  define h2 where "h2 = (if ?cond then logStateChangeEvent ssm cur prev h else h)"
  have flags: "availableInterface h2" "operationalInterface h2" "interfaceInitialized h2"
    using assms by (simp_all add: h2_def logStateChangeEvent_frame)
  have u: "updateState ssm cur prev avail func h =
             initializeInterface (markFunctional func (markAvailable avail
               (h2\<lparr>propCurrentState := Some cur, propPreviousState := Some prev,
                    currentStateReading := cur, previousStateReading := prev,
                    trace := trace h2 @ [SetCurrentState cur, SetPreviousState prev]\<rparr>)))"
    using assms(1,4) by (simp add: updateState_def h2_def Let_def)
  have t: "trace h2 = (if ?cond then trace (logStateChangeEvent ssm cur prev h) else trace h)"
    by (simp add: h2_def)
  show ?thesis
    unfolding u using flags
    by (simp add: markFunctional_def markAvailable_def initializeInterface_def Let_def t
          logStateChangeEvent_trace)
qed

theorem updateState_state_change_event_witness:
  "\<exists>h'. updateState health_states 2 1 True True published_sensor = Some h'
     \<and> propCurrentState h' = Some 2 \<and> propPreviousState h' = Some 1
     \<and> trace h' = [StateChangeEvent
                      ''Health State of cpu state sensor changed from Normal to Non-Critical''
                      ''OpenBMC.0.1.StateSensorNonCritical''
                      ''Health State'' ''cpu'' ''Normal'' ''Non-Critical'',
                    SetCurrentState 2, SetPreviousState 1, SetAvailable True,
                    SetFunctional True]"
  using updateState_state_change_event
          [where h = published_sensor and ssm = health_states and cur = 2 and prev = 1
             and avail = True and func = True]
  by (simp add: published_sensor_def health_states_def PLDM_INVALID_VALUE_def)

subsection \<open>Entity auxiliary names\<close>

lemma emplace_twice: "emplace (emplace m k v) k v' = emplace m k v"
  by (auto simp: emplace_def split: option.splits)

lemma to_string_0: "to_string 0 = ''0''"
  by (simp add: to_string.simps digit_char_def)

lemma auxNameLoop_runs:
  assumes "uint (entity_instance_num ent) + uint shared < 65535"
      and "uint (entity_instance_num ent) \<le> uint i"
      and "uint i \<le> uint (entity_instance_num ent) + uint shared"
  shows "auxNameLoop ent shared nm i c m = Some (emplace m ent (nm @ ''_'' @ to_string (unat c)))"
  using assms(2,3)
proof (induction "nat (uint (entity_instance_num ent) + uint shared - uint i)" arbitrary: i c m)
  case 0
  then have eq: "uint i = uint (entity_instance_num ent) + uint shared" by simp
  have "uint (i + 1) = uint i + 1"
    using assms(1) eq by (simp add: uint_word_ariths)
  then have stop: "\<not> uint (i + 1) \<le> uint (entity_instance_num ent) + uint shared"
    using eq by simp
  have "auxNameLoop ent shared nm i c m
      = auxNameLoop ent shared nm (i + 1) (c + 1) (emplace m ent (nm @ ''_'' @ to_string (unat c)))"
    by (subst auxNameLoop.simps) (simp add: eq)
  also have "\<dots> = Some (emplace m ent (nm @ ''_'' @ to_string (unat c)))"
    using stop by (subst auxNameLoop.simps) simp
  finally show ?case .
next
  case (Suc n)
  then have lt: "uint i < uint (entity_instance_num ent) + uint shared" by simp
  have s: "uint (i + 1) = uint i + 1"
    using assms(1) lt by (simp add: uint_word_ariths)
  have "auxNameLoop ent shared nm i c m
      = auxNameLoop ent shared nm (i + 1) (c + 1) (emplace m ent (nm @ ''_'' @ to_string (unat c)))"
    using lt by (subst auxNameLoop.simps) simp
  also have "\<dots> = Some (emplace (emplace m ent (nm @ ''_'' @ to_string (unat c))) ent
                (nm @ ''_'' @ to_string (unat (c + 1))))"
    using Suc s lt by (intro Suc.hyps(1)) simp_all
  finally show ?case
    by (simp add: emplace_twice)
qed

lemma auxNameLoop_returns_bound:
  assumes "auxNameLoop ent shared nm i c m = Some r"
  shows "uint (entity_instance_num ent) + uint shared < 65535"
proof (rule auxNameLoop.raw_induct
         [where P = "\<lambda>ent shared nm i c m r. uint (entity_instance_num ent) + uint shared < 65535",
          OF _ assms])
  fix f :: "pldm_entity \<Rightarrow> u8 \<Rightarrow> string \<Rightarrow> u16 \<Rightarrow> u16 \<Rightarrow> (pldm_entity \<rightharpoonup> string)
            \<Rightarrow> (pldm_entity \<rightharpoonup> string) option"
    and ent shared nm i c m r
  assume IH: "\<And>ent shared nm i c m r. f ent shared nm i c m = Some r
                \<Longrightarrow> uint (entity_instance_num ent) + uint shared < 65535"
    and step: "(if uint i \<le> uint (entity_instance_num ent) + uint shared
                then f ent shared nm (i + 1) (c + 1)
                       (emplace m ent (nm @ ''_'' @ to_string (unat c)))
                else Some m) = Some r"
  show "uint (entity_instance_num ent) + uint shared < 65535"
  proof (cases "uint i \<le> uint (entity_instance_num ent) + uint shared")
    case True
    with step have "f ent shared nm (i + 1) (c + 1)
                      (emplace m ent (nm @ ''_'' @ to_string (unat c))) = Some r"
      by simp
    then show ?thesis by (rule IH)
  next
    case False
    moreover have "uint i \<le> 65535"
      using uint_bounded [of i] by simp
    ultimately show ?thesis by simp
  qed
qed

lemma auxNameLoop_never_returns:
  assumes "65535 \<le> uint (entity_instance_num ent) + uint shared"
  shows "auxNameLoop ent shared nm i c m = None"
proof (cases "auxNameLoop ent shared nm i c m")
  case None
  then show ?thesis .
next
  case (Some r)
  from auxNameLoop_returns_bound [OF this] assms show ?thesis by simp
qed

text \<open>
  Where the instance range stays below 65535 the PDR is ingested as C10 describes: the
  loop returns, and of all the names it builds only the first one, the decoded name with
  \<open>_0\<close> appended, can enter the map, under the entity of the PDR (with its starting
  instance number), and only if that key is not there yet.
\<close>

lemma parseEntityAuxNamesPDR_single_entry:
  assumes "minEntityAuxNamesPDRLen \<le> length pdrData"
      and "getAuxName (namePDR_name_string_count pdrData)
             (length pdrData - minEntityAuxNamesPDRLen)
             (drop minEntityAuxNamesPDRLen pdrData) = Some auxName"
      and "1 \<le> namePDR_shared_name_count pdrData"
      and "uint (entity_instance_num (namePDR_entity pdrData))
             + uint (namePDR_shared_name_count pdrData) < 65535"
  shows "parseEntityAuxNamesPDR getAuxName pdrData m
           = Some (emplace m (namePDR_entity pdrData) (auxName @ ''_0''))"
proof -
  have "\<not> namePDR_shared_name_count pdrData \<le> 0"
    using assms(3) by (simp add: word_le_nat_alt)
  moreover have "auxNameLoop (namePDR_entity pdrData) (namePDR_shared_name_count pdrData) auxName
                   (entity_instance_num (namePDR_entity pdrData)) 0 m
                 = Some (emplace m (namePDR_entity pdrData) (auxName @ ''_0''))"
    using auxNameLoop_runs [OF assms(4), of "entity_instance_num (namePDR_entity pdrData)"
                              auxName 0 m]
    by (simp add: to_string_0)
  ultimately show ?thesis
    using assms(1,2) by (simp add: parseEntityAuxNamesPDR_def)
qed

lemma parseEntityAuxNamesPDR_instances_100_to_102:
  "parseEntityAuxNamesPDR (\<lambda>n len bytes. Some ''fan'') aux_names_pdr_100 Map.empty
     = Some [\<lparr>entity_type = 0x42, entity_instance_num = 100, entity_container_id = 1\<rparr>
               \<mapsto> ''fan_0'']"
proof -
  have e: "namePDR_entity aux_names_pdr_100
             = \<lparr>entity_type = 0x42, entity_instance_num = 100, entity_container_id = 1\<rparr>"
    by (simp add: namePDR_entity_def aux_names_pdr_100_def le16_def pdrHdrSize_def)
  have c: "namePDR_shared_name_count aux_names_pdr_100 = 2"
    by (simp add: namePDR_shared_name_count_def aux_names_pdr_100_def pdrHdrSize_def)
  have l: "minEntityAuxNamesPDRLen \<le> length aux_names_pdr_100"
    by (simp add: minEntityAuxNamesPDRLen_def pdrHdrSize_def aux_names_pdr_100_def)
  show ?thesis
    using parseEntityAuxNamesPDR_single_entry
            [where getAuxName = "\<lambda>n len bytes. Some ''fan''" and pdrData = aux_names_pdr_100
               and auxName = "''fan''" and m = Map.empty, OF l]
    by (simp add: e c emplace_def)
qed

text \<open>
  C10. The claim has the loop build shared name count plus one names and ingestion add
  at most one entry. For the PDR whose range starts at instance 65535 with a shared name
  count of 1 the bound is 65536, the 16-bit \<open>instanceNumber\<close> wraps from 65535 to 0 and
  never exceeds it: the loop does not end and \<open>parseEntityAuxNamesPDR\<close> never returns.
\<close>

theorem parseEntityAuxNamesPDR_never_returns:
  "parseEntityAuxNamesPDR (\<lambda>n len bytes. Some ''fan'') aux_names_pdr_65535 Map.empty = None"
proof -
  have e: "namePDR_entity aux_names_pdr_65535
             = \<lparr>entity_type = 0x42, entity_instance_num = 0xFFFF, entity_container_id = 1\<rparr>"
    by (simp add: namePDR_entity_def aux_names_pdr_65535_def le16_def pdrHdrSize_def)
  have c: "namePDR_shared_name_count aux_names_pdr_65535 = 1"
    by (simp add: namePDR_shared_name_count_def aux_names_pdr_65535_def pdrHdrSize_def)
  have l: "minEntityAuxNamesPDRLen \<le> length aux_names_pdr_65535"
    by (simp add: minEntityAuxNamesPDRLen_def pdrHdrSize_def aux_names_pdr_65535_def)
  have "auxNameLoop (namePDR_entity aux_names_pdr_65535) 1 ''fan'' 0xFFFF 0 Map.empty = None"
    by (rule auxNameLoop_never_returns) (simp add: e)
  then show ?thesis
    using l by (simp add: parseEntityAuxNamesPDR_def e c)
qed

subsection \<open>PDR retrieval: a record with a wrong CRC\<close>

lemma handle_bad_end:
  assumes "resp_rc e = PLDM_SUCCESS" "resp_completionCode e = 0"
      and "resp_transferFlag e = PLDM_END"
      and "crc8 (pdrRecord t @ resp_recordData e) \<noteq> resp_transferCRC e"
  shows "handleGetPDRResp crc8 e t =
           Some (False, t\<lparr>nextRecordHandle := resp_nextRecordHandle e,
                           pdrRecord := pdrRecord t @ resp_recordData e,
                           dataTransferHandle := resp_nextDataTransferHandle e,
                           transferComplete := True\<rparr>)"
  using assms
  by (simp add: handleGetPDRResp_def validatePLDMRespDecode_def PLDM_SUCCESS_def
        PLDM_END_def PLDM_START_def Let_def)

lemma loop_bad_end:
  assumes "resp_rc e = PLDM_SUCCESS" "resp_completionCode e = 0"
      and "resp_transferFlag e = PLDM_END"
      and "crc8 (pdrRecord t @ resp_recordData e) \<noteq> resp_transferCRC e"
  shows "getPDRLoop crc8 largest rh limit t reqs (Response e # rest) =
           Some (t\<lparr>nextRecordHandle := resp_nextRecordHandle e,
                   pdrRecord := pdrRecord t @ resp_recordData e,
                   dataTransferHandle := resp_nextDataTransferHandle e,
                   transferComplete := False\<rparr>,
                 \<lparr>requests = reqs @ [get_pdr_request rh t], script = rest\<rparr>)"
  using handle_bad_end [of e crc8 t] assms by (simp add: Let_def)

lemma loop_prefix:
  assumes "afterFragments crc8 largest limit t frags = Some (limit', t')"
  shows "\<exists>reqs'. getPDRLoop crc8 largest rh limit t reqs (map Response frags @ scr)
                  = getPDRLoop crc8 largest rh limit' t' (reqs @ reqs') scr
               \<and> map req_recordHandle reqs' = replicate (length frags) rh"
  using assms
proof (induction frags arbitrary: limit t reqs)
  case Nil
  then show ?case by simp
next
  case (Cons r rs)
  from Cons.prems obtain t1 where h: "handleGetPDRResp crc8 r t = Some (True, t1)"
      and c: "\<not> length (pdrRecord t1) > largest" "limit - 1 \<noteq> 0" "\<not> transferComplete t1"
      and a: "afterFragments crc8 largest (limit - 1) t1 rs = Some (limit', t')"
    by (auto split: option.splits if_splits)
  from Cons.IH [OF a, of "reqs @ [get_pdr_request rh t]"] obtain reqs' where
      r: "getPDRLoop crc8 largest rh (limit - 1) t1 (reqs @ [get_pdr_request rh t])
            (map Response rs @ scr)
          = getPDRLoop crc8 largest rh limit' t' ((reqs @ [get_pdr_request rh t]) @ reqs') scr"
      and m: "map req_recordHandle reqs' = replicate (length rs) rh"
    by blast
  have "getPDRLoop crc8 largest rh limit t reqs (map Response (r # rs) @ scr)
        = getPDRLoop crc8 largest rh limit' t' (reqs @ (get_pdr_request rh t # reqs')) scr"
    using h c r by (simp add: Let_def)
  moreover have "map req_recordHandle (get_pdr_request rh t # reqs')
                   = replicate (length (r # rs)) rh"
    using m by (simp add: get_pdr_request_def)
  ultimately show ?case by blast
qed

lemma record_bad_end:
  assumes frags: "afterFragments crc8 largest 100 initial_transfer frags = Some (limit', t')"
      and e: "resp_rc e = PLDM_SUCCESS" "resp_completionCode e = 0"
             "resp_transferFlag e = PLDM_END"
             "crc8 (pdrRecord t' @ resp_recordData e) \<noteq> resp_transferCRC e"
      and dev: "script dev = map Response frags @ Response e # rest"
  shows "\<exists>reqs'. map req_recordHandle reqs' = replicate (length frags + 1) recordHandle
           \<and> getDevicePDRRecord crc8 largest recordHandle dev
               = Some (False, resp_nextRecordHandle e, [],
                       \<lparr>requests = requests dev @ reqs', script = rest\<rparr>)"
proof -
  from loop_prefix [OF frags, of recordHandle "requests dev" "Response e # rest"]
  obtain reqs' where
      r: "getPDRLoop crc8 largest recordHandle 100 initial_transfer (requests dev)
            (map Response frags @ Response e # rest)
          = getPDRLoop crc8 largest recordHandle limit' t' (requests dev @ reqs')
              (Response e # rest)"
      and m: "map req_recordHandle reqs' = replicate (length frags) recordHandle"
    by blast
  let ?reqs = "reqs' @ [get_pdr_request recordHandle t']"
  have "map req_recordHandle ?reqs = replicate (length frags + 1) recordHandle"
    using m by (simp add: get_pdr_request_def replicate_append_same)
  moreover have "getDevicePDRRecord crc8 largest recordHandle dev
               = Some (False, resp_nextRecordHandle e, [],
                       \<lparr>requests = requests dev @ ?reqs, script = rest\<rparr>)"
    using r dev loop_bad_end [of e crc8 t' largest recordHandle limit' "requests dev @ reqs'" rest] e
    by (simp add: getDevicePDRRecord_def)
  ultimately show ?thesis by blast
qed

lemma scan_stops_on_failed_record:
  assumes "getDevicePDRRecord crc8 largest recordHandle dev = Some (False, nrh, record, dev')"
  shows "getDevicePDRRepoLoop crc8 largest recordHandle recordCount devicePDRs dev
           = Some (False, devicePDRs, dev')"
  using assms by (subst getDevicePDRRepoLoop.simps) simp

lemma failed_scan_is_retried:
  assumes "getDevicePDRRepo crc8 largest recordCount devicePDRs dev = Some (False, m1, dev1)"
  shows "fetchTries crc8 largest recordCount (Suc (Suc n)) devicePDRs dev
           = fetchTries crc8 largest recordCount (Suc n) Map.empty dev1"
    and "fetchTries crc8 largest recordCount (Suc 0) devicePDRs dev = Some (False, m1, dev1)"
  using assms by simp_all

lemma crc_of_the_two_fragments:
  "pldm_crc8 [1, 0, 0, 0, 1, 20, 0, 0, 6, 0, 1, 2, 3, 4, 5, 6] = 0x91"
  by code_simp

lemma handle_start_fragment:
  "handleGetPDRResp pldm_crc8 start_fragment initial_transfer
     = Some (True, \<lparr>nextRecordHandle = 2, transferOpFlag = PLDM_GET_NEXTPART,
                     recordChangeNumber = 0, dataTransferHandle = 1, transferComplete = False,
                     pdrRecord = [1, 0, 0, 0, 1, 20, 0, 0]\<rparr>)"
  by (simp add: handleGetPDRResp_def start_fragment_def initial_transfer_def
        validatePLDMRespDecode_def PLDM_SUCCESS_def PLDM_START_def PLDM_END_def
        PLDM_START_AND_END_def le16_def Let_def)

lemma handle_bad_end_fragment:
  "handleGetPDRResp pldm_crc8 bad_end_fragment
     \<lparr>nextRecordHandle = 2, transferOpFlag = PLDM_GET_NEXTPART,
      recordChangeNumber = 0, dataTransferHandle = 1, transferComplete = False,
      pdrRecord = [1, 0, 0, 0, 1, 20, 0, 0]\<rparr>
     = Some (False, \<lparr>nextRecordHandle = 2, transferOpFlag = PLDM_GET_NEXTPART,
                      recordChangeNumber = 0, dataTransferHandle = 0, transferComplete = True,
                      pdrRecord = [1, 0, 0, 0, 1, 20, 0, 0, 6, 0, 1, 2, 3, 4, 5, 6]\<rparr>)"
  by (simp add: handleGetPDRResp_def bad_end_fragment_def
        validatePLDMRespDecode_def PLDM_SUCCESS_def PLDM_START_def PLDM_END_def
        PLDM_START_AND_END_def Let_def crc_of_the_two_fragments)

lemma bad_record_from_handle_0:
  "getDevicePDRRecord pldm_crc8 64 0
       \<lparr>requests = reqs, script = Response start_fragment # Response bad_end_fragment # rest\<rparr>
     = Some (False, 2, [],
         \<lparr>requests = reqs @ [first_part_request, next_part_request], script = rest\<rparr>)"
  by (simp add: getDevicePDRRecord_def handle_start_fragment [unfolded initial_transfer_def]
        handle_bad_end_fragment Let_def get_pdr_request_def initial_transfer_def
        first_part_request_def next_part_request_def)

lemma bad_scan:
  "getDevicePDRRepo pldm_crc8 64 2 m
       \<lparr>requests = reqs, script = Response start_fragment # Response bad_end_fragment # rest\<rparr>
     = Some (False, m,
         \<lparr>requests = reqs @ [first_part_request, next_part_request], script = rest\<rparr>)"
  unfolding getDevicePDRRepo_def
  by (rule scan_stops_on_failed_record) (rule bad_record_from_handle_0)

text \<open>
  C1, as the claim states it, fails in its second half. The terminus announces two
  records; the first comes as START (8 bytes) and END (8 bytes) with a wrong CRC and
  names 2 as the next record handle. The scan returns false after the two requests for
  record handle 0: the remaining round is left untouched and record handle 2 is never
  requested. \<open>constructPDRRepo\<close> then starts the scan again at record handle 0 and,
  the terminus answering the same, gives up after three tries: all six requests are for
  record handle 0, and nothing reaches the repository.
\<close>

theorem bad_crc_scan_does_not_continue:
  "getDevicePDRRepo pldm_crc8 64 2 Map.empty
       \<lparr>requests = [],
        script = [Response start_fragment, Response bad_end_fragment, Response start_fragment]\<rparr>
     = Some (False, Map.empty,
         \<lparr>requests = [first_part_request, next_part_request],
          script = [Response start_fragment]\<rparr>)
   \<and> constructPDRRepo_fetch pldm_crc8 64 True 2
       \<lparr>requests = [],
        script = [Response start_fragment, Response bad_end_fragment,
                  Response start_fragment, Response bad_end_fragment,
                  Response start_fragment, Response bad_end_fragment]\<rparr>
     = Some (False, Map.empty,
         \<lparr>requests = [first_part_request, next_part_request,
                      first_part_request, next_part_request,
                      first_part_request, next_part_request],
          script = []\<rparr>)
   \<and> req_recordHandle first_part_request = 0 \<and> req_recordHandle next_part_request = 0
   \<and> resp_nextRecordHandle bad_end_fragment = 2"
proof -
  let ?S = "Response start_fragment" and ?B = "Response bad_end_fragment"
  let ?f = first_part_request and ?n = next_part_request
  have s0: "getDevicePDRRepo pldm_crc8 64 2 Map.empty \<lparr>requests = [], script = [?S, ?B, ?S]\<rparr>
              = Some (False, Map.empty, \<lparr>requests = [?f, ?n], script = [?S]\<rparr>)"
    using bad_scan [of Map.empty "[]" "[?S]"] by simp
  have s1: "getDevicePDRRepo pldm_crc8 64 2 Map.empty
              \<lparr>requests = [], script = [?S, ?B, ?S, ?B, ?S, ?B]\<rparr>
              = Some (False, Map.empty, \<lparr>requests = [?f, ?n], script = [?S, ?B, ?S, ?B]\<rparr>)"
    using bad_scan [of Map.empty "[]" "[?S, ?B, ?S, ?B]"] by simp
  have s2: "getDevicePDRRepo pldm_crc8 64 2 Map.empty
              \<lparr>requests = [?f, ?n], script = [?S, ?B, ?S, ?B]\<rparr>
              = Some (False, Map.empty, \<lparr>requests = [?f, ?n, ?f, ?n], script = [?S, ?B]\<rparr>)"
    using bad_scan [of Map.empty "[?f, ?n]" "[?S, ?B]"] by simp
  have s3: "getDevicePDRRepo pldm_crc8 64 2 Map.empty
              \<lparr>requests = [?f, ?n, ?f, ?n], script = [?S, ?B]\<rparr>
              = Some (False, Map.empty, \<lparr>requests = [?f, ?n, ?f, ?n, ?f, ?n], script = []\<rparr>)"
    using bad_scan [of Map.empty "[?f, ?n, ?f, ?n]" "[]"] by simp
  have c: "constructPDRRepo_fetch pldm_crc8 64 True 2
             \<lparr>requests = [], script = [?S, ?B, ?S, ?B, ?S, ?B]\<rparr>
           = Some (False, Map.empty, \<lparr>requests = [?f, ?n, ?f, ?n, ?f, ?n], script = []\<rparr>)"
    by (simp add: constructPDRRepo_fetch_def numeral_3_eq_3 s1 s2 s3)
  have h: "req_recordHandle ?f = 0" "req_recordHandle ?n = 0"
          "resp_nextRecordHandle bad_end_fragment = 2"
    by (simp_all add: first_part_request_def next_part_request_def bad_end_fragment_def)
  from s0 c h show ?thesis by simp
qed

text \<open>
  C1, amended. Take any multi-part retrieval of a record: fragments that each let the
  loop go round again, then an END fragment whose CRC differs from the 8-bit CRC of the
  assembled bytes. The retrieval of the record returns false with the record cleared,
  having sent one request per fragment, all for the record handle of the call, and
  leaving the later rounds untouched. Wherever the scan stands (record handle, records
  left to count, records gathered so far), it returns false at once with the gathered
  records as they were: the record is not inserted and no further record is requested.
  And whenever a scan returns false, \<open>constructPDRRepo\<close> starts a new scan with an
  empty map if tries are left, and otherwise returns false with nothing handed on to
  the repository.
\<close>

theorem bad_crc_record_aborts_scan:
  assumes "afterFragments crc8 largest 100 initial_transfer frags = Some (limit', t')"
      and "resp_rc e = PLDM_SUCCESS" and "resp_completionCode e = 0"
      and "resp_transferFlag e = PLDM_END"
      and "crc8 (pdrRecord t' @ resp_recordData e) \<noteq> resp_transferCRC e"
      and "script dev = map Response frags @ Response e # rest"
  shows "(\<exists>reqs'. map req_recordHandle reqs' = replicate (length frags + 1) recordHandle
            \<and> getDevicePDRRecord crc8 largest recordHandle dev
                = Some (False, resp_nextRecordHandle e, [],
                        \<lparr>requests = requests dev @ reqs', script = rest\<rparr>)
            \<and> getDevicePDRRepoLoop crc8 largest recordHandle recordCount devicePDRs dev
                = Some (False, devicePDRs, \<lparr>requests = requests dev @ reqs', script = rest\<rparr>))
       \<and> (getDevicePDRRepo crc8 largest count m d = Some (False, m1, d1) \<longrightarrow>
            fetchTries crc8 largest count (Suc (Suc n)) m d
              = fetchTries crc8 largest count (Suc n) Map.empty d1
          \<and> fetchTries crc8 largest count (Suc 0) m d = Some (False, m1, d1))"
proof -
  from record_bad_end [OF assms, of recordHandle] obtain reqs' where
      m: "map req_recordHandle reqs' = replicate (length frags + 1) recordHandle"
      and r: "getDevicePDRRecord crc8 largest recordHandle dev
                = Some (False, resp_nextRecordHandle e, [],
                        \<lparr>requests = requests dev @ reqs', script = rest\<rparr>)"
    by blast
  from scan_stops_on_failed_record [OF r] m r show ?thesis
    by (auto simp: failed_scan_is_retried)
qed

theorem bad_crc_record_aborts_scan_witness:
  "afterFragments pldm_crc8 64 100 initial_transfer [start_fragment]
     = Some (99, \<lparr>nextRecordHandle = 2, transferOpFlag = PLDM_GET_NEXTPART,
                   recordChangeNumber = 0, dataTransferHandle = 1, transferComplete = False,
                   pdrRecord = [1, 0, 0, 0, 1, 20, 0, 0]\<rparr>)
   \<and> pldm_crc8 ([1, 0, 0, 0, 1, 20, 0, 0] @ resp_recordData bad_end_fragment)
       \<noteq> resp_transferCRC bad_end_fragment
   \<and> (\<exists>reqs'. map req_recordHandle reqs' = [0, 0]
         \<and> getDevicePDRRecord pldm_crc8 64 0
              \<lparr>requests = [],
               script = [Response start_fragment, Response bad_end_fragment,
                         Response start_fragment]\<rparr>
             = Some (False, 2, [], \<lparr>requests = reqs', script = [Response start_fragment]\<rparr>)
         \<and> getDevicePDRRepoLoop pldm_crc8 64 0 2 Map.empty
              \<lparr>requests = [],
               script = [Response start_fragment, Response bad_end_fragment,
                         Response start_fragment]\<rparr>
             = Some (False, Map.empty,
                     \<lparr>requests = reqs', script = [Response start_fragment]\<rparr>))
   \<and> fetchTries pldm_crc8 64 2 (Suc 0) Map.empty
        \<lparr>requests = [],
         script = [Response start_fragment, Response bad_end_fragment, Response start_fragment]\<rparr>
       = Some (False, Map.empty,
           \<lparr>requests = [first_part_request, next_part_request],
            script = [Response start_fragment]\<rparr>)"
proof -
  let ?t = "\<lparr>nextRecordHandle = 2, transferOpFlag = PLDM_GET_NEXTPART,
             recordChangeNumber = 0, dataTransferHandle = 1, transferComplete = False,
             pdrRecord = [1, 0, 0, 0, 1, 20, 0, 0]\<rparr>"
  let ?dev = "\<lparr>requests = [],
               script = [Response start_fragment, Response bad_end_fragment,
                         Response start_fragment]\<rparr>"
  have a: "afterFragments pldm_crc8 64 100 initial_transfer [start_fragment] = Some (99, ?t)"
    by (simp add: handle_start_fragment)
  have e: "resp_rc bad_end_fragment = PLDM_SUCCESS" "resp_completionCode bad_end_fragment = 0"
          "resp_transferFlag bad_end_fragment = PLDM_END"
    by (simp_all add: bad_end_fragment_def PLDM_SUCCESS_def)
  have c: "pldm_crc8 (pdrRecord ?t @ resp_recordData bad_end_fragment)
             \<noteq> resp_transferCRC bad_end_fragment"
    by (simp add: bad_end_fragment_def crc_of_the_two_fragments)
  have s: "script ?dev = map Response [start_fragment] @ Response bad_end_fragment
                           # [Response start_fragment]"
    by simp
  have g: "getDevicePDRRepo pldm_crc8 64 2 Map.empty ?dev
             = Some (False, Map.empty,
                 \<lparr>requests = [first_part_request, next_part_request],
                  script = [Response start_fragment]\<rparr>)"
    using bad_scan [of Map.empty "[]"] by simp
  from bad_crc_record_aborts_scan
         [OF a e c s, where recordHandle = 0 and recordCount = 2 and devicePDRs = Map.empty
            and count = 2 and m = Map.empty and d = ?dev and ?m1.0 = Map.empty
            and ?d1.0 = "\<lparr>requests = [first_part_request, next_part_request],
                          script = [Response start_fragment]\<rparr>" and n = 0]
       a c g
  show ?thesis
    by (simp add: bad_end_fragment_def numeral_2_eq_2)
qed

subsection \<open>Entity association tree\<close>

lemmas tree_eval =
  createEntityAssociationTree_def extractRootNode_def insertToAssociationTree_def
  getContainedNode_def children_with_paths_def sameEntity_def cyclic_associations_def
  chassis_def board_def attachLoop.simps

text \<open>
  C5. The check made before a child is appended searches from the matched parent node,
  not from the root of the tree. With the chassis as root holding the board, the
  association that puts the chassis into the board is inserted under the board: the
  search from the board does not meet the chassis, although a search from the root finds
  it at once (at the empty path). The tree ends with the chassis at the root and again
  under the board, so its entities are not distinct.
\<close>

theorem cyclic_association_is_inserted:
  "createEntityAssociationTree 0 cyclic_associations
     = Some (EntityNode chassis [EntityNode board [EntityNode chassis []]])
   \<and> getContainedNode (EntityNode chassis [EntityNode board []]) (EntityNode chassis [])
       = Some []
   \<and> \<not> distinct (entitiesOf (EntityNode chassis [EntityNode board [EntityNode chassis []]]))"
  by (simp add: tree_eval)

end
